theory Spec2Isabelle
  imports Main "HOL-Library.AList"
begin

section \<open>Python values\<close>

text \<open>
  The values the store holds and the decoders produce. A Python \<open>str\<close> is kept as the
  bytes of its UTF-8 encoding (an Isabelle \<open>char\<close> is one byte), so \<open>bytes.decode("utf-8")\<close>
  is a well-formedness check that keeps the bytes. A \<open>dict\<close> is the list of its items in
  insertion order, with string keys (\<open>Dict[str, Any]\<close> in the source); a \<open>set\<close> is the list
  of its elements. \<open>PBytes\<close> stands for \<open>bytes\<close> and \<open>bytearray\<close>. Floats are outside
  the value universe.
\<close>

datatype pyval =
    PNone
  | PBool bool
  | PInt int
  | PStr string
  | PBytes string
  | PMemoryview string
  | PList "pyval list"
  | PDict "(string \<times> pyval) list"
  | PSet "pyval list"

type_synonym dict = "(string \<times> pyval) list"

text \<open>Python's \<open>==\<close> on these values: \<open>True == 1\<close>, a dict equals a dict with the same
  items in any order, a set equals a set with the same elements, buffers compare by content.\<close>

function py_eq :: "pyval \<Rightarrow> pyval \<Rightarrow> bool"
  and py_eq_list :: "pyval list \<Rightarrow> pyval list \<Rightarrow> bool"
  and py_items_in :: "dict \<Rightarrow> dict \<Rightarrow> bool"
  and py_in :: "pyval \<Rightarrow> pyval list \<Rightarrow> bool"
  and py_subset :: "pyval list \<Rightarrow> pyval list \<Rightarrow> bool"
where
  "py_eq x y =
     (case x of
        PNone \<Rightarrow> (case y of PNone \<Rightarrow> True | _ \<Rightarrow> False)
      | PBool a \<Rightarrow> (case y of PBool b \<Rightarrow> a = b | PInt j \<Rightarrow> (if a then 1 else 0) = j | _ \<Rightarrow> False)
      | PInt i \<Rightarrow> (case y of PInt j \<Rightarrow> i = j | PBool b \<Rightarrow> i = (if b then 1 else 0) | _ \<Rightarrow> False)
      | PStr s \<Rightarrow> (case y of PStr t \<Rightarrow> s = t | _ \<Rightarrow> False)
      | PBytes s \<Rightarrow> (case y of PBytes t \<Rightarrow> s = t | PMemoryview t \<Rightarrow> s = t | _ \<Rightarrow> False)
      | PMemoryview s \<Rightarrow> (case y of PBytes t \<Rightarrow> s = t | PMemoryview t \<Rightarrow> s = t | _ \<Rightarrow> False)
      | PList xs \<Rightarrow> (case y of PList ys \<Rightarrow> py_eq_list xs ys | _ \<Rightarrow> False)
      | PDict a \<Rightarrow> (case y of PDict b \<Rightarrow> length a = length b \<and> py_items_in a b | _ \<Rightarrow> False)
      | PSet a \<Rightarrow> (case y of PSet b \<Rightarrow> py_subset a b \<and> py_subset b a | _ \<Rightarrow> False))"
| "py_eq_list [] ys = (ys = [])"
| "py_eq_list (x # xs) ys = (case ys of [] \<Rightarrow> False | y # ys' \<Rightarrow> py_eq x y \<and> py_eq_list xs ys')"
| "py_items_in [] b = True"
| "py_items_in (kv # a) b =
     ((case map_of b (fst kv) of None \<Rightarrow> False | Some w \<Rightarrow> py_eq (snd kv) w) \<and> py_items_in a b)"
| "py_in x [] = False"
| "py_in x (y # ys) = (py_eq x y \<or> py_in x ys)"
| "py_subset [] b = True"
| "py_subset (x # a) b = (py_in x b \<and> py_subset a b)"
  by pat_completeness auto


lemma map_of_size:
  "map_of b k = Some w \<Longrightarrow> size w < size_list (size_prod (\<lambda>_. 0) size) b"
  by (induction b) (auto split: if_splits)

termination py_eq
  apply (relation "measure (\<lambda>s. case s of
      Inl (Inl (x, y)) \<Rightarrow> size x + size y
    | Inl (Inr (xs, ys)) \<Rightarrow> size_list size xs + size_list size ys
    | Inr (Inl (a, b)) \<Rightarrow>
        size_list (size_prod (\<lambda>_. 0) size) a + size_list (size_prod (\<lambda>_. 0) size) b
    | Inr (Inr (Inl (x, ys))) \<Rightarrow> size x + size_list size ys
    | Inr (Inr (Inr (a, b))) \<Rightarrow> size_list size a + size_list size b)")
  apply (auto dest: map_of_size)
  done

declare py_eq.simps(1) [simp del]

text \<open>Truthiness, as \<open>not v\<close> and \<open>if v\<close> read a value.\<close>

fun truthy :: "pyval \<Rightarrow> bool" where
  "truthy PNone = False"
| "truthy (PBool b) = b"
| "truthy (PInt i) = (i \<noteq> 0)"
| "truthy (PStr s) = (s \<noteq> [])"
| "truthy (PBytes s) = (s \<noteq> [])"
| "truthy (PMemoryview s) = (s \<noteq> [])"
| "truthy (PList xs) = (xs \<noteq> [])"
| "truthy (PDict d) = (d \<noteq> [])"
| "truthy (PSet xs) = (xs \<noteq> [])"

section \<open>Helpers of the \<open>extended_data_types\<close> package\<close>

text \<open>
  \<open>is_nothing(v)\<close>: \<open>v in [None, "", {}, []]\<close>, or \<open>str(v)\<close> is empty or only whitespace,
  or \<open>v\<close> is a list or set whose elements are all in \<open>[None, "", {}, []]\<close>. Only a
  \<open>str\<close> has an empty or blank \<open>str(v)\<close> among the values modelled.

  \<open>str.isspace\<close> holds for a non-empty string of whitespace characters. Python's
  whitespace characters are U+0009 to U+000D, U+001C to U+0020, U+0085, U+00A0, U+1680,
  U+2000 to U+200A, U+2028, U+2029, U+202F, U+205F and U+3000; \<open>all_space\<close> reads them in
  their UTF-8 encoding, byte by byte.
\<close>

definition nothing_literals :: "pyval list" where
  "nothing_literals = [PNone, PStr [], PDict [], PList []]"

definition ascii_space :: "nat \<Rightarrow> bool" where
  "ascii_space n = ((9 \<le> n \<and> n \<le> 13) \<or> (28 \<le> n \<and> n \<le> 32))"

fun all_space :: "nat list \<Rightarrow> bool" where
  "all_space [] = True"
| "all_space (b0 # bs) =
     (if ascii_space b0 then all_space bs
      else if b0 = 194 then
        (case bs of b1 # r \<Rightarrow> (b1 = 133 \<or> b1 = 160) \<and> all_space r | _ \<Rightarrow> False)
      else if b0 = 225 then
        (case bs of b1 # b2 # r \<Rightarrow> b1 = 154 \<and> b2 = 128 \<and> all_space r | _ \<Rightarrow> False)
      else if b0 = 226 then
        (case bs of
           b1 # b2 # r \<Rightarrow>
             ((b1 = 128 \<and> ((128 \<le> b2 \<and> b2 \<le> 138) \<or> b2 = 168 \<or> b2 = 169 \<or> b2 = 175))
              \<or> (b1 = 129 \<and> b2 = 159)) \<and> all_space r
         | _ \<Rightarrow> False)
      else if b0 = 227 then
        (case bs of b1 # b2 # r \<Rightarrow> b1 = 128 \<and> b2 = 128 \<and> all_space r | _ \<Rightarrow> False)
      else False)"

definition isspace :: "string \<Rightarrow> bool" where
  "isspace s = (s \<noteq> [] \<and> all_space (map of_char s))"

fun str_blank :: "pyval \<Rightarrow> bool" where
  "str_blank (PStr s) = (s = [] \<or> isspace s)"
| "str_blank v = False"

fun only_nothing_elements :: "pyval \<Rightarrow> bool" where
  "only_nothing_elements (PList xs) = (filter (\<lambda>vv. \<not> py_in vv nothing_literals) xs = [])"
| "only_nothing_elements (PSet xs) = (filter (\<lambda>vv. \<not> py_in vv nothing_literals) xs = [])"
| "only_nothing_elements v = False"

definition is_nothing :: "pyval \<Rightarrow> bool" where
  "is_nothing v =
     (if py_in v nothing_literals then True
      else if str_blank v then True
      else only_nothing_elements v)"

section \<open>The merger of the \<open>deepmerge\<close> package, as the source configures it\<close>

text \<open>
  \<open>Merger([(list, ["append"]), (dict, ["merge"]), (set, ["union"])], ["override"], ["override"])\<close>:
  two lists are appended, two dicts merged key by key, two sets united; every other pair
  (the fallback and the type conflict) is overridden by the incoming value.
\<close>

definition strategy_append :: "pyval list \<Rightarrow> pyval list \<Rightarrow> pyval list" where
  "strategy_append base nxt = base @ nxt"

definition strategy_union :: "pyval list \<Rightarrow> pyval list \<Rightarrow> pyval list" where
  "strategy_union base nxt = base @ filter (\<lambda>x. \<not> py_in x base) nxt"

function (sequential) value_strategy :: "pyval \<Rightarrow> pyval \<Rightarrow> pyval"
  and strategy_merge :: "dict \<Rightarrow> dict \<Rightarrow> dict"
where
  "value_strategy (PList base) (PList nxt) = PList (strategy_append base nxt)"
| "value_strategy (PDict base) (PDict nxt) = PDict (strategy_merge base nxt)"
| "value_strategy (PSet base) (PSet nxt) = PSet (strategy_union base nxt)"
| "value_strategy base nxt = nxt"
| "strategy_merge base [] = base"
| "strategy_merge base (kv # nxt) =
     strategy_merge
       (case map_of base (fst kv) of
          None \<Rightarrow> AList.update (fst kv) (snd kv) base
        | Some x \<Rightarrow> AList.update (fst kv) (value_strategy x (snd kv)) base)
       nxt"
  by pat_completeness auto

termination value_strategy
  apply (relation "measure (\<lambda>s. case s of
      Inl (base, nxt) \<Rightarrow> size nxt
    | Inr (base, nxt) \<Rightarrow> size_list (size_prod (\<lambda>_. 0) size) nxt)")
  apply auto
  done

definition Merger_merge :: "pyval \<Rightarrow> pyval \<Rightarrow> pyval" where
  "Merger_merge base nxt = value_strategy base nxt"

section \<open>The store and its freeze, thaw and shift (directed\_inputs\_class.py)\<close>

record store =
  inputs :: dict
  frozen_inputs :: dict

text \<open>Values are immutable here, so a deep copy is the value itself.\<close>

definition deepcopy :: "'a \<Rightarrow> 'a" where
  "deepcopy v = v"

fun as_dict :: "pyval \<Rightarrow> dict" where
  "as_dict (PDict d) = d"
| "as_dict v = []"

text \<open>\<open>__init__\<close>: \<open>settings_dict\<close> is what \<open>self.settings.dict()\<close> returned.\<close>

definition DirectedInputsClass_init :: "dict \<Rightarrow> store" where
  "DirectedInputsClass_init settings_dict = \<lparr>inputs = settings_dict, frozen_inputs = []\<rparr>"

definition freeze_inputs :: "store \<Rightarrow> dict \<times> store" where
  "freeze_inputs s =
     (if is_nothing (PDict (frozen_inputs s))
      then (let s1 = s\<lparr>frozen_inputs := deepcopy (inputs s)\<rparr>;
                s2 = s1\<lparr>inputs := []\<rparr>
            in (frozen_inputs s2, s2))
      else (frozen_inputs s, s))"

definition thaw_inputs :: "store \<Rightarrow> dict \<times> store" where
  "thaw_inputs s =
     (if is_nothing (PDict (inputs s))
      then (let s1 = s\<lparr>inputs := deepcopy (frozen_inputs s)\<rparr>;
                s2 = s1\<lparr>frozen_inputs := []\<rparr>
            in (inputs s2, s2))
      else (let s1 = s\<lparr>inputs :=
                        as_dict (Merger_merge (PDict (deepcopy (inputs s)))
                                              (PDict (deepcopy (frozen_inputs s))))\<rparr>;
                s2 = s1\<lparr>frozen_inputs := []\<rparr>
            in (inputs s2, s2)))"

definition shift_inputs :: "store \<Rightarrow> dict \<times> store" where
  "shift_inputs s =
     (if is_nothing (PDict (frozen_inputs s)) then freeze_inputs s else thaw_inputs s)"

section \<open>Exceptions and the library the source calls\<close>

text \<open>
  The Python exceptions the code catches or lets through. \<open>Unmodelled\<close> is not an
  exception: a library function answers it where Python's result leaves the values
  represented here (a float, a key that is not a string).
\<close>

datatype exn =
    TypeError
  | ValueError
  | BinasciiError
  | UnicodeDecodeError
  | JSONDecodeError
  | YAMLError
  | NameError
  | OtherException
  | Unmodelled

text \<open>\<open>isinstance(exc, ValueError)\<close>: \<open>binascii.Error\<close>, \<open>UnicodeDecodeError\<close> and
  \<open>json.JSONDecodeError\<close> are subclasses of \<open>ValueError\<close>.\<close>

definition is_ValueError :: "exn \<Rightarrow> bool" where
  "is_ValueError e = (e = ValueError \<or> e = BinasciiError \<or> e = UnicodeDecodeError \<or> e = JSONDecodeError)"

text \<open>What a call of the package raises: a \<open>RuntimeError\<close>, kept with the values its
  message prints, or an exception the code does not catch.\<close>

datatype error =
    NotAnInteger string pyval
  | NotAFloat string pyval
  | RequiredNotPassed string dict
  | FailedBase64 pyval
  | FailedBytesToString pyval
  | FailedYAML pyval
  | FailedJSON pyval
  | FailedStdin string
  | Uncaught exn

text \<open>
  The functions imported from \<open>extended_data_types\<close>, the built-in conversions and
  Unicode's case folding of non-ASCII strings are parameters of the model: none of them is
  code of this repository.
\<close>

record pylib =
  strtobool :: "pyval \<Rightarrow> exn + pyval"
  py_int :: "pyval \<Rightarrow> exn + pyval"
  py_float :: "pyval \<Rightarrow> exn + pyval"
  base64_decode :: "pyval \<Rightarrow> bool \<Rightarrow> string \<Rightarrow> exn + pyval"
  decode_json :: "pyval \<Rightarrow> exn + pyval"
  decode_yaml :: "pyval \<Rightarrow> exn + pyval"
  unicode_casefold :: "string \<Rightarrow> exn + string"

section \<open>Reading and decoding an input (input.py)\<close>

text \<open>
  \<open>key.casefold()\<close>: on a string of ASCII characters the letters \<open>A\<close> to \<open>Z\<close> go to lower
  case and every other character is kept; on any other string the folding is Unicode's
  table, which is the library's parameter \<open>unicode_casefold\<close>.
\<close>

definition is_ascii :: "string \<Rightarrow> bool" where
  "is_ascii t = list_all (\<lambda>c. (of_char c :: nat) < 128) t"

definition ascii_lower_char :: "char \<Rightarrow> char" where
  "ascii_lower_char c =
     (let n = (of_char c :: nat) in if 65 \<le> n \<and> n \<le> 90 then char_of (n + 32) else c)"

definition casefold :: "pylib \<Rightarrow> string \<Rightarrow> exn + string" where
  "casefold L s = (if is_ascii s then Inr (map ascii_lower_char s) else unicode_casefold L s)"

text \<open>\<open>self._inputs.get(key, default)\<close> on a plain \<open>dict\<close>.\<close>

definition dict_get :: "dict \<Rightarrow> string \<Rightarrow> pyval \<Rightarrow> pyval" where
  "dict_get d key dflt = (case map_of d key of None \<Rightarrow> dflt | Some v \<Rightarrow> v)"

text \<open>The three conversion blocks of \<open>get_input\<close>, each with its \<open>try\<close> and \<open>except\<close>:
  \<open>if is_bool: inp = strtobool(inp)\<close>, then \<open>int(inp)\<close> and \<open>float(inp)\<close> when asked for and
  \<open>inp is not None\<close>, a \<open>TypeError\<close> or \<open>ValueError\<close> becoming the \<open>RuntimeError\<close>.\<close>

definition convert_bool :: "pylib \<Rightarrow> bool \<Rightarrow> pyval \<Rightarrow> error + pyval" where
  "convert_bool L is_bool inp =
     (if is_bool
      then (case strtobool L inp of Inl e \<Rightarrow> Inl (Uncaught e) | Inr v \<Rightarrow> Inr v)
      else Inr inp)"

definition convert_integer :: "pylib \<Rightarrow> string \<Rightarrow> bool \<Rightarrow> pyval \<Rightarrow> error + pyval" where
  "convert_integer L key is_integer inp =
     (if is_integer \<and> inp \<noteq> PNone
      then (case py_int L inp of
              Inl e \<Rightarrow> if e = TypeError \<or> is_ValueError e
                       then Inl (NotAnInteger key inp) else Inl (Uncaught e)
            | Inr v \<Rightarrow> Inr v)
      else Inr inp)"

definition convert_float :: "pylib \<Rightarrow> string \<Rightarrow> bool \<Rightarrow> pyval \<Rightarrow> error + pyval" where
  "convert_float L key is_float inp =
     (if is_float \<and> inp \<noteq> PNone
      then (case py_float L inp of
              Inl e \<Rightarrow> if e = TypeError \<or> is_ValueError e
                       then Inl (NotAFloat key inp) else Inl (Uncaught e)
            | Inr v \<Rightarrow> Inr v)
      else Inr inp)"

definition get_input ::
  "pylib \<Rightarrow> store \<Rightarrow> string \<Rightarrow> pyval \<Rightarrow> bool \<Rightarrow> bool \<Rightarrow> bool \<Rightarrow> bool \<Rightarrow> error + pyval" where
  "get_input L s key dflt required is_bool is_integer is_float =
     (case casefold L key of
        Inl e \<Rightarrow> Inl (Uncaught e)
      | Inr folded \<Rightarrow>
          (let inp0 = dict_get (inputs s) folded dflt;
               inp1 = (if is_nothing inp0 then dflt else inp0)
           in case convert_bool L is_bool inp1 of
                Inl err \<Rightarrow> Inl err
              | Inr inp2 \<Rightarrow>
                  (case convert_integer L key is_integer inp2 of
                     Inl err \<Rightarrow> Inl err
                   | Inr inp3 \<Rightarrow>
                       (case convert_float L key is_float inp3 of
                          Inl err \<Rightarrow> Inl err
                        | Inr inp4 \<Rightarrow>
                            if is_nothing inp4 \<and> required
                            then Inl (RequiredNotPassed key (inputs s))
                            else Inr inp4))))"

text \<open>The classes of decoding\_types.py, which a caller may pass as \<open>decode_type\<close>;
  \<open>OtherType\<close> is any other class.\<close>

datatype decode_type =
    JSONDecoded
  | YAMLDecoded
  | Base64Decoded
  | JSONAndBase64Decoded
  | YAMLAndBase64Decoded
  | JSONWithoutBase64Decoded
  | YAMLWithoutBase64Decoded
  | OtherType

text \<open>Well-formed UTF-8, as the strict decoder of \<open>bytes.decode("utf-8")\<close> accepts it.\<close>

definition cont_byte :: "nat \<Rightarrow> bool" where
  "cont_byte b = (128 \<le> b \<and> b \<le> 191)"

fun utf8_ok :: "nat list \<Rightarrow> bool" where
  "utf8_ok [] = True"
| "utf8_ok (b0 # bs) =
     (if b0 < 128 then utf8_ok bs
      else if 194 \<le> b0 \<and> b0 \<le> 223 then
        (case bs of b1 # r \<Rightarrow> cont_byte b1 \<and> utf8_ok r | _ \<Rightarrow> False)
      else if 224 \<le> b0 \<and> b0 \<le> 239 then
        (case bs of
           b1 # b2 # r \<Rightarrow>
             (if b0 = 224 then 160 \<le> b1 \<and> b1 \<le> 191
              else if b0 = 237 then 128 \<le> b1 \<and> b1 \<le> 159
              else cont_byte b1) \<and> cont_byte b2 \<and> utf8_ok r
         | _ \<Rightarrow> False)
      else if 240 \<le> b0 \<and> b0 \<le> 244 then
        (case bs of
           b1 # b2 # b3 # r \<Rightarrow>
             (if b0 = 240 then 144 \<le> b1 \<and> b1 \<le> 191
              else if b0 = 244 then 128 \<le> b1 \<and> b1 \<le> 143
              else cont_byte b1) \<and> cont_byte b2 \<and> cont_byte b3 \<and> utf8_ok r
         | _ \<Rightarrow> False)
      else False)"

definition utf8_valid :: "string \<Rightarrow> bool" where
  "utf8_valid bs = utf8_ok (map of_char bs)"

text \<open>The blocks of \<open>decode_input\<close> after the value is read: the Base64 block, the
  \<open>isinstance\<close> chain that turns a buffer into text, and the YAML/JSON block.\<close>

definition base64_block :: "pylib \<Rightarrow> bool \<Rightarrow> bool \<Rightarrow> bool \<Rightarrow> pyval \<Rightarrow> error + pyval" where
  "base64_block L from_json from_yaml from_base64 conf =
     (if from_base64
      then (case base64_decode L conf (from_json \<or> from_yaml)
                   (if from_json then ''json'' else ''yaml'') of
              Inl e \<Rightarrow> if e = BinasciiError then Inl (FailedBase64 conf) else Inl (Uncaught e)
            | Inr v \<Rightarrow> Inr v)
      else Inr conf)"

definition bytes_block :: "pyval \<Rightarrow> error + pyval" where
  "bytes_block conf =
     (case conf of
        PMemoryview b \<Rightarrow>
          if utf8_valid b then Inr (PStr b) else Inl (Uncaught UnicodeDecodeError)
      | PBytes b \<Rightarrow>
          if utf8_valid b then Inr (PStr b) else Inl (FailedBytesToString conf)
      | _ \<Rightarrow> Inr conf)"

definition parse_block :: "pylib \<Rightarrow> bool \<Rightarrow> bool \<Rightarrow> pyval \<Rightarrow> error + pyval" where
  "parse_block L from_json from_yaml conf =
     (if from_yaml
      then (case decode_yaml L conf of
              Inl e \<Rightarrow> if e = YAMLError then Inl (FailedYAML conf) else Inl (Uncaught e)
            | Inr v \<Rightarrow> Inr v)
      else if from_json
      then (case decode_json L conf of
              Inl e \<Rightarrow> if e = JSONDecodeError then Inl (FailedJSON conf) else Inl (Uncaught e)
            | Inr v \<Rightarrow> Inr v)
      else Inr conf)"

text \<open>
  \<open>decode_input\<close>. With a decode type given, the first statement of the \<open>if decode_type:\<close>
  block evaluates the name \<open>JSONDecoded\<close>, which input.py neither defines nor imports:
  the call raises \<open>NameError\<close> before anything is read. Without one, the value is read by
  \<open>get_input\<close> and run through the three blocks.
\<close>

definition decode_input ::
  "pylib \<Rightarrow> store \<Rightarrow> string \<Rightarrow> pyval \<Rightarrow> bool \<Rightarrow> bool \<Rightarrow> bool \<Rightarrow> bool \<Rightarrow> bool \<Rightarrow>
   decode_type option \<Rightarrow> error + pyval" where
  "decode_input L s key dflt required decode_from_json decode_from_yaml decode_from_base64
       allow_none dtype =
     (case dtype of
        Some t \<Rightarrow> Inl (Uncaught NameError)
      | None \<Rightarrow>
          (case get_input L s key dflt required False False False of
             Inl err \<Rightarrow> Inl err
           | Inr conf \<Rightarrow>
               if conf = PNone \<or> py_eq conf dflt then Inr conf
               else
                 (case base64_block L decode_from_json decode_from_yaml decode_from_base64 conf of
                    Inl err \<Rightarrow> Inl err
                  | Inr conf1 \<Rightarrow>
                      (case bytes_block conf1 of
                         Inl err \<Rightarrow> Inl err
                       | Inr conf2 \<Rightarrow>
                           (case parse_block L decode_from_json decode_from_yaml conf2 of
                              Inl err \<Rightarrow> Inl err
                            | Inr conf3 \<Rightarrow>
                                if conf3 = PNone \<and> \<not> allow_none then Inr dflt
                                else Inr conf3)))))"








section \<open>The settings sources and their merge (input.py, decorators.py)\<close>

text \<open>The process: its environment, what is still unread on standard input, and how
  often standard input was read.\<close>

record process =
  environ :: "(string \<times> string) list"
  stdin_buffer :: string
  stdin_reads :: nat

definition os_getenv :: "process \<Rightarrow> string \<Rightarrow> string \<Rightarrow> string" where
  "os_getenv p name dflt = (case map_of (environ p) name of None \<Rightarrow> dflt | Some v \<Rightarrow> v)"

definition sys_stdin_read :: "process \<Rightarrow> string \<times> process" where
  "sys_stdin_read p = (stdin_buffer p, p\<lparr>stdin_buffer := [], stdin_reads := Suc (stdin_reads p)\<rparr>)"

text \<open>\<open>d.update(other)\<close> for a dict \<open>other\<close>: a key already in \<open>d\<close> keeps its place.\<close>

fun dict_update :: "dict \<Rightarrow> dict \<Rightarrow> dict" where
  "dict_update d [] = d"
| "dict_update d (kv # other) = dict_update (AList.update (fst kv) (snd kv) d) other"

text \<open>
  \<open>d.update(v)\<close> for any value: a dict updates, \<open>None\<close> and numbers are not iterable,
  an empty sequence changes nothing. Python reads a non-empty sequence as key/value pairs:
  the characters of a string are too short for a pair, the bytes of a buffer are numbers,
  and the pairs of a list or set are not modelled.
\<close>

fun dict_update_from :: "dict \<Rightarrow> pyval \<Rightarrow> exn + dict" where
  "dict_update_from d (PDict other) = Inr (dict_update d other)"
| "dict_update_from d PNone = Inl TypeError"
| "dict_update_from d (PBool b) = Inl TypeError"
| "dict_update_from d (PInt i) = Inl TypeError"
| "dict_update_from d (PStr t) = (if t = [] then Inr d else Inl ValueError)"
| "dict_update_from d (PBytes t) = (if t = [] then Inr d else Inl TypeError)"
| "dict_update_from d (PMemoryview t) = (if t = [] then Inr d else Inl TypeError)"
| "dict_update_from d (PList xs) = (if xs = [] then Inr d else Inl Unmodelled)"
| "dict_update_from d (PSet xs) = (if xs = [] then Inr d else Inl Unmodelled)"

text \<open>\<open>StdinSettingsSource.__call__\<close>.\<close>

definition StdinSettingsSource_call :: "pylib \<Rightarrow> process \<Rightarrow> (error + dict) \<times> process" where
  "StdinSettingsSource_call L p =
     (case strtobool L (PStr (os_getenv p ''OVERRIDE_STDIN'' ''False'')) of
        Inl e \<Rightarrow> (Inl (Uncaught e), p)
      | Inr flag \<Rightarrow>
          if \<not> truthy flag
          then (let (inputs_from_stdin, p') = sys_stdin_read p
                in if \<not> is_nothing (PStr inputs_from_stdin)
                   then (case decode_json L (PStr inputs_from_stdin) of
                           Inl e \<Rightarrow>
                             if e = JSONDecodeError then (Inl (FailedStdin inputs_from_stdin), p')
                             else (Inl (Uncaught e), p')
                         | Inr v \<Rightarrow>
                             (case dict_update_from [] v of
                                Inl e \<Rightarrow> (Inl (Uncaught e), p')
                              | Inr d \<Rightarrow> (Inr d, p')))
                   else (Inr [], p'))
          else (Inr [], p))"

text \<open>A source is pydantic's (the initialization, environment, dotenv and secrets
  sources, each kept as the mapping it returns) or the standard-input source.\<close>

datatype source = SettingsSource dict | StdinSettingsSource

fun call_source :: "pylib \<Rightarrow> source \<Rightarrow> process \<Rightarrow> (error + dict) \<times> process" where
  "call_source L (SettingsSource d) p = (Inr d, p)"
| "call_source L StdinSettingsSource p = StdinSettingsSource_call L p"

text \<open>
  \<open>settings_customise_sources\<close> is a class method: it reads \<open>cls.from_environment\<close> and
  \<open>cls.from_stdin\<close>, attributes of the class and not of an instance, and builds the
  standard-input source with \<open>StdinSettingsSource(settings_cls)\<close> when the second is true.
  What these three expressions give is pydantic's doing, so their outcomes are arguments:
  the truth value read or the exception raised, and the source built or the exception
  raised. The list is built left to right and its \<open>None\<close> entries are dropped.
\<close>

definition settings_customise_sources ::
  "exn + bool \<Rightarrow> exn + bool \<Rightarrow> exn + source \<Rightarrow> source \<Rightarrow> source \<Rightarrow> source \<Rightarrow> source \<Rightarrow>
   exn + source list" where
  "settings_customise_sources cls_from_environment cls_from_stdin new_StdinSettingsSource
       init_settings env_settings dotenv_settings file_secret_settings =
     (case cls_from_environment of
        Inl e \<Rightarrow> Inl e
      | Inr from_environment \<Rightarrow>
          (case cls_from_stdin of
             Inl e \<Rightarrow> Inl e
           | Inr from_stdin \<Rightarrow>
               (case (if from_stdin then map_sum id Some new_StdinSettingsSource else Inr None) of
                  Inl e \<Rightarrow> Inl e
                | Inr stdin_settings \<Rightarrow>
                    Inr (List.map_filter (\<lambda>source. source)
                           [if from_environment then Some env_settings else None,
                            stdin_settings,
                            Some init_settings,
                            Some dotenv_settings,
                            Some file_secret_settings]))))"

text \<open>The loop of the decorator's wrapper over a tuple of sources:
  \<open>for source in sources: combined_settings.update(source())\<close>.\<close>

fun combine_sources ::
  "pylib \<Rightarrow> source list \<Rightarrow> dict \<Rightarrow> process \<Rightarrow> (error + dict) \<times> process" where
  "combine_sources L [] combined_settings p = (Inr combined_settings, p)"
| "combine_sources L (src # sources) combined_settings p =
     (case call_source L src p of
        (Inl err, p') \<Rightarrow> (Inl err, p')
      | (Inr d, p') \<Rightarrow> combine_sources L sources (dict_update combined_settings d) p')"

text \<open>
  pydantic reads the same tuple when it constructs the settings object: it calls the
  sources in order and folds each result under the state so far,
  \<open>state = deep_update(source_state, state)\<close>, so that a source earlier in the tuple
  overrides a later one. \<open>deep_update(mapping, updating)\<close> copies \<open>mapping\<close> and writes every
  entry of \<open>updating\<close> into it, two dicts under one key being updated in depth.
\<close>

function (sequential) deep_update_value :: "pyval \<Rightarrow> pyval \<Rightarrow> pyval"
  and deep_update :: "dict \<Rightarrow> dict \<Rightarrow> dict"
where
  "deep_update_value (PDict mapping) (PDict v) = PDict (deep_update mapping v)"
| "deep_update_value old v = v"
| "deep_update mapping [] = mapping"
| "deep_update mapping (kv # updating) =
     deep_update
       (case map_of mapping (fst kv) of
          None \<Rightarrow> AList.update (fst kv) (snd kv) mapping
        | Some old \<Rightarrow> AList.update (fst kv) (deep_update_value old (snd kv)) mapping)
       updating"
  by pat_completeness auto

termination deep_update_value
  apply (relation "measure (\<lambda>s. case s of
      Inl (old, v) \<Rightarrow> size v
    | Inr (mapping, updating) \<Rightarrow> size_list (size_prod (\<lambda>_. 0) size) updating)")
  apply auto
  done

fun settings_build_values ::
  "pylib \<Rightarrow> source list \<Rightarrow> dict \<Rightarrow> process \<Rightarrow> (error + dict) \<times> process" where
  "settings_build_values L [] state p = (Inr state, p)"
| "settings_build_values L (src # sources) state p =
     (case call_source L src p of
        (Inl err, p') \<Rightarrow> (Inl err, p')
      | (Inr source_state, p') \<Rightarrow>
          settings_build_values L sources (deep_update source_state state) p')"

text \<open>The priority the specification states, lowest first: dotenv values, file secrets,
  environment variables, standard input, initialization values.\<close>

definition spec_priority ::
  "dict \<Rightarrow> dict \<Rightarrow> dict \<Rightarrow> dict \<Rightarrow> dict \<Rightarrow> string \<Rightarrow> pyval option" where
  "spec_priority dotenv secrets env stdin_values kwargs =
     map_of dotenv ++ map_of secrets ++ map_of env ++ map_of stdin_values ++ map_of kwargs"

section \<open>A reference library for concrete runs\<close>

text \<open>
  One instance of the library parameters, for runs on ASCII text. \<open>strtobool\<close> of
  \<open>extended_data_types\<close> answers a truth value as it is, a string by its lower-case form
  in the two word lists, and \<open>None\<close> otherwise. \<open>base64_decode\<close> decodes the Base64 text
  (the non-strict \<open>binascii.a2b_base64\<close>), decodes the bytes as UTF-8 and answers that
  text, or, asked to unwrap, the value parsed from it in the encoding named.
  \<open>decode_json\<close> reads JSON text, and raises its decoding error on a value that is no
  text. What is left out answers \<open>Unmodelled\<close>: \<open>int\<close>, \<open>float\<close>, YAML, strings that are
  not ASCII where a case is folded, and in JSON the \<open>\\u\<close> escapes, the numbers with a
  fraction or an exponent and the integers outside 64 bits.
\<close>

definition true_words :: "string list" where
  "true_words = [''y'', ''yes'', ''t'', ''true'', ''on'', ''1'']"

definition false_words :: "string list" where
  "false_words = [''n'', ''no'', ''f'', ''false'', ''off'', ''0'']"

fun ref_strtobool :: "pyval \<Rightarrow> exn + pyval" where
  "ref_strtobool (PBool b) = Inr (PBool b)"
| "ref_strtobool (PStr t) =
     (if is_ascii t
      then (let w = map ascii_lower_char t
            in if List.member true_words w then Inr (PBool True)
               else if List.member false_words w then Inr (PBool False)
               else Inr PNone)
      else Inl Unmodelled)"
| "ref_strtobool v = Inr PNone"

definition is_digit :: "char \<Rightarrow> bool" where
  "is_digit c = (let n = (of_char c :: nat) in 48 \<le> n \<and> n \<le> 57)"

definition digit_value :: "char \<Rightarrow> nat" where
  "digit_value c = of_char c - 48"

definition digits_value :: "string \<Rightarrow> nat" where
  "digits_value ds = foldl (\<lambda>a c. 10 * a + digit_value c) 0 ds"

definition b64_index :: "char \<Rightarrow> nat option" where
  "b64_index c =
     (let n = (of_char c :: nat)
      in if 65 \<le> n \<and> n \<le> 90 then Some (n - 65)
         else if 97 \<le> n \<and> n \<le> 122 then Some (n - 71)
         else if 48 \<le> n \<and> n \<le> 57 then Some (n + 4)
         else if n = 43 then Some 62
         else if n = 47 then Some 63
         else None)"

text \<open>\<open>a2b_base64 quad_pos leftchar pads\<close>: the loop of the C function, one character at
  a time; \<open>None\<close> is \<open>binascii.Error\<close>.\<close>

fun a2b_base64 :: "nat \<Rightarrow> nat \<Rightarrow> nat \<Rightarrow> string \<Rightarrow> string option" where
  "a2b_base64 quad_pos leftchar pads [] = (if quad_pos \<noteq> 0 then None else Some [])"
| "a2b_base64 quad_pos leftchar pads (c # cs) =
     (if c = CHR ''='' then
        (if quad_pos \<ge> 2 \<and> quad_pos + (pads + 1) \<ge> 4 then Some []
         else a2b_base64 quad_pos leftchar (if quad_pos \<ge> 2 then pads + 1 else pads) cs)
      else
        (case b64_index c of
           None \<Rightarrow> a2b_base64 quad_pos leftchar pads cs
         | Some v \<Rightarrow>
             if quad_pos = 0 then a2b_base64 1 v 0 cs
             else if quad_pos = 1 then
               map_option ((#) (char_of (leftchar * 4 + v div 16))) (a2b_base64 2 (v mod 16) 0 cs)
             else if quad_pos = 2 then
               map_option ((#) (char_of (leftchar * 16 + v div 4))) (a2b_base64 3 (v mod 4) 0 cs)
             else
               map_option ((#) (char_of (leftchar * 64 + v))) (a2b_base64 0 0 0 cs)))"

definition b64decode :: "string \<Rightarrow> exn + string" where
  "b64decode t = (case a2b_base64 0 0 0 t of None \<Rightarrow> Inl BinasciiError | Some bs \<Rightarrow> Inr bs)"

definition json_ws :: "char \<Rightarrow> bool" where
  "json_ws c = (let n = (of_char c :: nat) in n = 32 \<or> n = 9 \<or> n = 10 \<or> n = 13)"

definition skip_ws :: "string \<Rightarrow> string" where
  "skip_ws t = dropWhile json_ws t"

definition starts_with :: "char \<Rightarrow> string \<Rightarrow> bool" where
  "starts_with c t = (case t of [] \<Rightarrow> False | x # r \<Rightarrow> x = c)"

definition json_escape :: "char \<Rightarrow> char option" where
  "json_escape e =
     (if e = CHR 0x22 then Some (CHR 0x22)
      else if e = CHR 0x5C then Some (CHR 0x5C)
      else if e = CHR ''/'' then Some (CHR ''/'')
      else if e = CHR ''b'' then Some (CHR 0x08)
      else if e = CHR ''f'' then Some (CHR 0x0C)
      else if e = CHR ''n'' then Some (CHR 0x0A)
      else if e = CHR ''r'' then Some (CHR 0x0D)
      else if e = CHR ''t'' then Some (CHR 0x09)
      else None)"

text \<open>\<open>json_string\<close> reads a string after its opening quote.\<close>

fun json_string :: "string \<Rightarrow> exn + (string \<times> string)" where
  "json_string [] = Inl JSONDecodeError"
| "json_string (c # cs) =
     (if c = CHR 0x22 then Inr ([], cs)
      else if c = CHR 0x5C then
        (case cs of
           [] \<Rightarrow> Inl JSONDecodeError
         | e # r \<Rightarrow>
             (case json_escape e of
                None \<Rightarrow> if e = CHR ''u'' then Inl Unmodelled else Inl JSONDecodeError
              | Some ch \<Rightarrow>
                  (case json_string r of
                     Inl x \<Rightarrow> Inl x
                   | Inr (t, r') \<Rightarrow> Inr (ch # t, r'))))
      else if (of_char c :: nat) < 32 then Inl JSONDecodeError
      else (case json_string cs of
              Inl x \<Rightarrow> Inl x
            | Inr (t, r') \<Rightarrow> Inr (c # t, r')))"

definition json_float_tail :: "string \<Rightarrow> bool" where
  "json_float_tail r =
     (case r of
        [] \<Rightarrow> False
      | c # r1 \<Rightarrow>
          if c = CHR ''.'' then (case r1 of [] \<Rightarrow> False | d # r2 \<Rightarrow> is_digit d)
          else if c = CHR ''e'' \<or> c = CHR ''E'' then
            (case r1 of
               [] \<Rightarrow> False
             | d # r2 \<Rightarrow>
                 if d = CHR ''+'' \<or> d = CHR ''-''
                 then (case r2 of [] \<Rightarrow> False | d2 # r3 \<Rightarrow> is_digit d2)
                 else is_digit d)
          else False)"

definition json_number :: "string \<Rightarrow> exn + (pyval \<times> string)" where
  "json_number t =
     (let negative = starts_with (CHR ''-'') t;
          u = (if negative then tl t else t);
          ds = takeWhile is_digit u;
          r = dropWhile is_digit u
      in if take 3 t = ''NaN'' \<or> take 8 t = ''Infinity'' \<or> take 9 t = ''-Infinity''
         then Inl Unmodelled
         else if ds = [] \<or> (length ds > 1 \<and> starts_with (CHR ''0'') ds) then Inl JSONDecodeError
         else if json_float_tail r then Inl Unmodelled
         else if digits_value ds \<ge> 2 ^ 63 then Inl Unmodelled
         else Inr (PInt (if negative then - int (digits_value ds) else int (digits_value ds)), r))"

text \<open>The reader takes fuel for the nesting; out of fuel it answers \<open>OtherException\<close>
  (Python's \<open>RecursionError\<close>). \<open>json_loads\<close> gives it twice the length of the text.\<close>

fun json_value :: "nat \<Rightarrow> string \<Rightarrow> exn + (pyval \<times> string)"
  and json_elements :: "nat \<Rightarrow> pyval list \<Rightarrow> string \<Rightarrow> exn + (pyval \<times> string)"
  and json_members :: "nat \<Rightarrow> dict \<Rightarrow> string \<Rightarrow> exn + (pyval \<times> string)"
where
  "json_value 0 t0 = Inl OtherException"
| "json_value (Suc n) t0 =
     (let t = skip_ws t0
      in case t of
           [] \<Rightarrow> Inl JSONDecodeError
         | c # r \<Rightarrow>
             if c = CHR 0x22 then
               (case json_string r of Inl e \<Rightarrow> Inl e | Inr (str, r') \<Rightarrow> Inr (PStr str, r'))
             else if c = CHR ''['' then
               (if starts_with (CHR '']'') (skip_ws r) then Inr (PList [], tl (skip_ws r))
                else json_elements n [] r)
             else if c = CHR ''{'' then
               (if starts_with (CHR ''}'') (skip_ws r) then Inr (PDict [], tl (skip_ws r))
                else json_members n [] r)
             else if take 4 t = ''null'' then Inr (PNone, drop 4 t)
             else if take 4 t = ''true'' then Inr (PBool True, drop 4 t)
             else if take 5 t = ''false'' then Inr (PBool False, drop 5 t)
             else json_number t)"
| "json_elements 0 acc t = Inl OtherException"
| "json_elements (Suc n) acc t =
     (case json_value n t of
        Inl e \<Rightarrow> Inl e
      | Inr (v, r) \<Rightarrow>
          if starts_with (CHR '','') (skip_ws r) then json_elements n (acc @ [v]) (tl (skip_ws r))
          else if starts_with (CHR '']'') (skip_ws r) then Inr (PList (acc @ [v]), tl (skip_ws r))
          else Inl JSONDecodeError)"
| "json_members 0 acc t = Inl OtherException"
| "json_members (Suc n) acc t =
     (if starts_with (CHR 0x22) (skip_ws t) then
        (case json_string (tl (skip_ws t)) of
           Inl e \<Rightarrow> Inl e
         | Inr (k, r) \<Rightarrow>
             if starts_with (CHR '':'') (skip_ws r) then
               (case json_value n (tl (skip_ws r)) of
                  Inl e \<Rightarrow> Inl e
                | Inr (v, r2) \<Rightarrow>
                    if starts_with (CHR '','') (skip_ws r2)
                    then json_members n (AList.update k v acc) (tl (skip_ws r2))
                    else if starts_with (CHR ''}'') (skip_ws r2)
                    then Inr (PDict (AList.update k v acc), tl (skip_ws r2))
                    else Inl JSONDecodeError)
             else Inl JSONDecodeError)
      else Inl JSONDecodeError)"

definition json_loads :: "string \<Rightarrow> exn + pyval" where
  "json_loads t =
     (case json_value (2 * length t + 2) t of
        Inl e \<Rightarrow> Inl e
      | Inr (v, r) \<Rightarrow> if skip_ws r = [] then Inr v else Inl JSONDecodeError)"

fun ref_decode_json :: "pyval \<Rightarrow> exn + pyval" where
  "ref_decode_json (PStr t) = json_loads t"
| "ref_decode_json (PBytes t) = (if utf8_valid t then json_loads t else Inl JSONDecodeError)"
| "ref_decode_json (PMemoryview t) = (if utf8_valid t then json_loads t else Inl JSONDecodeError)"
| "ref_decode_json v = Inl JSONDecodeError"

text \<open>\<open>unwrap_raw_data_from_import(decoded, encoding)\<close>, which \<open>base64_decode\<close> calls when
  asked to unwrap.\<close>

definition ref_unwrap :: "string \<Rightarrow> string \<Rightarrow> exn + pyval" where
  "ref_unwrap decoded encoding =
     (if encoding = ''json'' then ref_decode_json (PStr decoded) else Inl Unmodelled)"

definition ref_base64_text :: "string \<Rightarrow> bool \<Rightarrow> string \<Rightarrow> exn + pyval" where
  "ref_base64_text t unwrap_raw_data encoding =
     (case b64decode t of
        Inl e \<Rightarrow> Inl e
      | Inr bs \<Rightarrow>
          if \<not> utf8_valid bs then Inl UnicodeDecodeError
          else if unwrap_raw_data then ref_unwrap bs encoding
          else Inr (PStr bs))"

fun ref_base64_decode :: "pyval \<Rightarrow> bool \<Rightarrow> string \<Rightarrow> exn + pyval" where
  "ref_base64_decode (PStr t) unwrap_raw_data encoding =
     (if is_ascii t then ref_base64_text t unwrap_raw_data encoding else Inl ValueError)"
| "ref_base64_decode (PBytes t) unwrap_raw_data encoding =
     ref_base64_text t unwrap_raw_data encoding"
| "ref_base64_decode (PMemoryview t) unwrap_raw_data encoding =
     ref_base64_text t unwrap_raw_data encoding"
| "ref_base64_decode v unwrap_raw_data encoding = Inl TypeError"

definition ref_lib :: pylib where
  "ref_lib =
     \<lparr>strtobool = ref_strtobool,
      py_int = (\<lambda>v. Inl Unmodelled),
      py_float = (\<lambda>v. Inl Unmodelled),
      base64_decode = ref_base64_decode,
      decode_json = ref_decode_json,
      decode_yaml = (\<lambda>v. Inl Unmodelled),
      unicode_casefold = (\<lambda>s. Inl Unmodelled)\<rparr>"

section \<open>Vocabulary of the properties\<close>

text \<open>A dict has each key once.\<close>

definition wf_dict :: "dict \<Rightarrow> bool" where
  "wf_dict d = distinct (map fst d)"

text \<open>The three operations on the store, to speak of any sequence of them.\<close>

datatype store_op = Freeze | Thaw | Shift

fun run_op :: "store \<Rightarrow> store_op \<Rightarrow> store" where
  "run_op s Freeze = snd (freeze_inputs s)"
| "run_op s Thaw = snd (thaw_inputs s)"
| "run_op s Shift = snd (shift_inputs s)"

definition run_ops :: "store \<Rightarrow> store_op list \<Rightarrow> store" where
  "run_ops s ops = foldl run_op s ops"

text \<open>The pairs the merger has a strategy for: two lists, two dicts, two sets.\<close>

fun both_containers :: "pyval \<Rightarrow> pyval \<Rightarrow> bool" where
  "both_containers (PList a) (PList b) = True"
| "both_containers (PDict a) (PDict b) = True"
| "both_containers (PSet a) (PSet b) = True"
| "both_containers x y = False"

text \<open>The \<open>RuntimeError\<close> of a missing required input prints the store's inputs;
  \<open>with_inputs d r\<close> is the result \<open>r\<close> with that print replaced by \<open>d\<close>.\<close>

fun with_inputs :: "dict \<Rightarrow> error + pyval \<Rightarrow> error + pyval" where
  "with_inputs d (Inl (RequiredNotPassed k d')) = Inl (RequiredNotPassed k d)"
| "with_inputs d r = r"

text \<open>The mappings of the sources of a tuple that are not the standard-input source, in
  the order of the tuple.\<close>

fun fixed_mappings :: "source list \<Rightarrow> dict list" where
  "fixed_mappings [] = []"
| "fixed_mappings (SettingsSource d # sources) = d # fixed_mappings sources"
| "fixed_mappings (StdinSettingsSource # sources) = fixed_mappings sources"

section \<open>Facts about the helpers\<close>

lemma py_in_nothing_PDict: "py_in (PDict d) nothing_literals = (d = [])"
  by (cases d) (simp_all add: nothing_literals_def py_eq.simps(1))

lemma is_nothing_PDict: "is_nothing (PDict d) = (d = [])"
  by (simp add: is_nothing_def py_in_nothing_PDict)

lemma freeze_inputs_store:
  "snd (freeze_inputs s) =
     (if frozen_inputs s = [] then s\<lparr>frozen_inputs := inputs s, inputs := []\<rparr> else s)"
  by (simp add: freeze_inputs_def is_nothing_PDict deepcopy_def Let_def)

lemma thaw_inputs_store:
  "snd (thaw_inputs s) =
     (if inputs s = [] then s\<lparr>inputs := frozen_inputs s, frozen_inputs := []\<rparr>
      else s\<lparr>inputs := strategy_merge (inputs s) (frozen_inputs s), frozen_inputs := []\<rparr>)"
  by (simp add: thaw_inputs_def is_nothing_PDict deepcopy_def Let_def Merger_merge_def)

lemma shift_inputs_store:
  "snd (shift_inputs s) =
     (if frozen_inputs s = [] then snd (freeze_inputs s) else snd (thaw_inputs s))"
  by (simp add: shift_inputs_def is_nothing_PDict)

lemma strategy_merge_lookup:
  "distinct (map fst nxt) \<Longrightarrow>
   map_of (strategy_merge base nxt) k =
     (case map_of nxt k of
        None \<Rightarrow> map_of base k
      | Some y \<Rightarrow> (case map_of base k of None \<Rightarrow> Some y | Some x \<Rightarrow> Some (value_strategy x y)))"
proof (induction nxt arbitrary: base k)
  case Nil
  then show ?case by simp
next
  case (Cons kv nxt)
  obtain k0 v0 where kv: "kv = (k0, v0)" by (cases kv)
  from Cons.prems have d: "distinct (map fst nxt)" and nin: "k0 \<notin> fst ` set nxt"
    by (auto simp: kv)
  have none: "map_of nxt k0 = None" using nin by (simp add: map_of_eq_None_iff)
  show ?case
  proof (cases "k = k0")
    case True
    then show ?thesis using none
      by (simp add: kv Cons.IH[OF d] update_conv' split: option.splits)
  next
    case False
    then show ?thesis
      by (simp add: kv Cons.IH[OF d] update_conv' split: option.splits)
  qed
qed

lemma value_strategy_override: "\<not> both_containers x y \<Longrightarrow> value_strategy x y = y"
  by (cases x; cases y) simp_all

lemma one_empty_step:
  "inputs s = [] \<or> frozen_inputs s = [] \<Longrightarrow>
   inputs (run_op s op) = [] \<or> frozen_inputs (run_op s op) = []"
  by (cases op) (auto simp: freeze_inputs_store thaw_inputs_store shift_inputs_store)

lemma one_empty_run:
  "inputs s = [] \<or> frozen_inputs s = [] \<Longrightarrow>
   inputs (run_ops s ops) = [] \<or> frozen_inputs (run_ops s ops) = []"
  unfolding run_ops_def
proof (induction ops arbitrary: s)
  case Nil
  then show ?case by simp
next
  case (Cons op ops)
  show ?case using Cons.IH[OF one_empty_step[OF Cons.prems]] by simp
qed

section \<open>Freeze, thaw and shift\<close>

text \<open>
  C3. When the frozen mapping is empty, \<open>freeze_inputs\<close> followed by \<open>thaw_inputs\<close> gives
  back the store it started from: the active mapping is the one before the freeze (and is
  what \<open>thaw_inputs\<close> returns), and the frozen mapping is empty again. No condition on the
  keys of the active mapping is needed, since the thaw finds the active mapping empty
  and does not merge.
\<close>

theorem freeze_then_thaw_roundtrip:
  "frozen_inputs s = [] \<Longrightarrow>
     snd (thaw_inputs (snd (freeze_inputs s))) = s
     \<and> fst (thaw_inputs (snd (freeze_inputs s))) = inputs s
     \<and> inputs (snd (thaw_inputs (snd (freeze_inputs s)))) = inputs s"
  by (simp add: freeze_inputs_store thaw_inputs_def is_nothing_PDict deepcopy_def Let_def)

theorem freeze_then_thaw_roundtrip_witness:
  "frozen_inputs \<lparr>inputs = [(''key1'', PStr ''value1'')], frozen_inputs = []\<rparr> = []
   \<and> snd (freeze_inputs \<lparr>inputs = [(''key1'', PStr ''value1'')], frozen_inputs = []\<rparr>)
       = \<lparr>inputs = [], frozen_inputs = [(''key1'', PStr ''value1'')]\<rparr>
   \<and> inputs (snd (thaw_inputs (snd (freeze_inputs
        \<lparr>inputs = [(''key1'', PStr ''value1'')], frozen_inputs = []\<rparr>))))
       = [(''key1'', PStr ''value1'')]"
  using freeze_then_thaw_roundtrip
          [of "\<lparr>inputs = [(''key1'', PStr ''value1'')], frozen_inputs = []\<rparr>"]
  by (simp add: freeze_inputs_store)

text \<open>
  C4. After construction and any sequence of \<open>freeze_inputs\<close>, \<open>thaw_inputs\<close> and
  \<open>shift_inputs\<close>, the active mapping or the frozen mapping is empty.
\<close>

theorem at_most_one_mapping_nonempty:
  "inputs (run_ops (DirectedInputsClass_init d) ops) = []
   \<or> frozen_inputs (run_ops (DirectedInputsClass_init d) ops) = []"
  by (rule one_empty_run) (simp add: DirectedInputsClass_init_def)

theorem at_most_one_mapping_nonempty_witness:
  "run_ops (DirectedInputsClass_init [(''key1'', PStr ''value1'')]) [Shift, Freeze, Thaw, Freeze]
     = \<lparr>inputs = [], frozen_inputs = [(''key1'', PStr ''value1'')]\<rparr>
   \<and> (inputs (run_ops (DirectedInputsClass_init [(''key1'', PStr ''value1'')])
                [Shift, Freeze, Thaw, Freeze]) = []
      \<or> frozen_inputs (run_ops (DirectedInputsClass_init [(''key1'', PStr ''value1'')])
                [Shift, Freeze, Thaw, Freeze]) = [])"
  using at_most_one_mapping_nonempty
          [of "[(''key1'', PStr ''value1'')]" "[Shift, Freeze, Thaw, Freeze]"]
  by (simp add: run_ops_def DirectedInputsClass_init_def freeze_inputs_store thaw_inputs_store
        shift_inputs_store)

text \<open>
  C5. When the active and the frozen mapping are both non-empty, \<open>thaw_inputs\<close> sets the
  active mapping to the merge of the frozen mapping into it and returns it. Key by key, a
  key of one mapping only keeps its value and a key of both gets the merge of the active
  value with the frozen one. The merge appends two lists, merges two dicts key by key in
  the same way, unites two sets (the elements of the first, then the new ones of the
  second) and lets the frozen value win on every other pair. After \<open>thaw_inputs\<close> the
  frozen mapping is empty, from any store.
\<close>

theorem thaw_merges_frozen_into_active:
  "inputs s \<noteq> [] \<and> frozen_inputs s \<noteq> [] \<and> wf_dict (frozen_inputs s) \<Longrightarrow>
     thaw_inputs s =
       (as_dict (Merger_merge (PDict (inputs s)) (PDict (frozen_inputs s))),
        s\<lparr>inputs := as_dict (Merger_merge (PDict (inputs s)) (PDict (frozen_inputs s))),
          frozen_inputs := []\<rparr>)
     \<and> map_of (inputs (snd (thaw_inputs s))) k =
         (case map_of (frozen_inputs s) k of
            None \<Rightarrow> map_of (inputs s) k
          | Some y \<Rightarrow>
              (case map_of (inputs s) k of
                 None \<Rightarrow> Some y
               | Some x \<Rightarrow> Some (Merger_merge x y)))
     \<and> Merger_merge (PList xs) (PList ys) = PList (xs @ ys)
     \<and> (wf_dict b \<longrightarrow>
          map_of (as_dict (Merger_merge (PDict a) (PDict b))) k =
            (case map_of b k of
               None \<Rightarrow> map_of a k
             | Some y \<Rightarrow> (case map_of a k of None \<Rightarrow> Some y | Some x \<Rightarrow> Some (Merger_merge x y))))
     \<and> Merger_merge (PSet xs) (PSet ys) = PSet (xs @ filter (\<lambda>y. \<not> py_in y xs) ys)
     \<and> (\<not> both_containers v w \<longrightarrow> Merger_merge v w = w)
     \<and> frozen_inputs (snd (thaw_inputs t)) = []"
  unfolding Merger_merge_def
  by (simp add: thaw_inputs_def is_nothing_PDict deepcopy_def Let_def Merger_merge_def
        strategy_merge_lookup wf_dict_def strategy_append_def strategy_union_def
        value_strategy_override)

theorem thaw_merges_frozen_into_active_witness:
  "thaw_inputs
     \<lparr>inputs = [(''tags'', PList [PStr ''a'']), (''opts'', PDict [(''x'', PInt 1)]), (''n'', PInt 1)],
      frozen_inputs =
        [(''tags'', PList [PStr ''b'']), (''opts'', PDict [(''y'', PInt 2)]), (''n'', PInt 2)]\<rparr>
     = ([(''tags'', PList [PStr ''a'', PStr ''b'']),
         (''opts'', PDict [(''x'', PInt 1), (''y'', PInt 2)]), (''n'', PInt 2)],
        \<lparr>inputs = [(''tags'', PList [PStr ''a'', PStr ''b'']),
                   (''opts'', PDict [(''x'', PInt 1), (''y'', PInt 2)]), (''n'', PInt 2)],
         frozen_inputs = []\<rparr>)
   \<and> wf_dict [(''y'', PInt 2)]
   \<and> map_of (as_dict (Merger_merge (PDict [(''x'', PInt 1)]) (PDict [(''y'', PInt 2)]))) ''y''
       = Some (PInt 2)
   \<and> \<not> both_containers (PInt 1) (PInt 2)
   \<and> Merger_merge (PInt 1) (PInt 2) = PInt 2"
  using thaw_merges_frozen_into_active
          [where s = "\<lparr>inputs = [(''tags'', PList [PStr ''a'']), (''opts'', PDict [(''x'', PInt 1)]),
                          (''n'', PInt 1)],
                frozen_inputs = [(''tags'', PList [PStr ''b'']), (''opts'', PDict [(''y'', PInt 2)]),
                          (''n'', PInt 2)]\<rparr>"
             and k = "''y''" and b = "[(''y'', PInt 2)]" and a = "[(''x'', PInt 1)]"
             and v = "PInt 1" and w = "PInt 2"]
  by (simp add: wf_dict_def Merger_merge_def strategy_append_def)

text \<open>
  C6, as amended. From a store in which the active or the frozen mapping is empty (every
  store that construction and the three operations reach), two calls of \<open>shift_inputs\<close>
  give back the store they started from.
\<close>

theorem shift_twice_restores_split:
  "inputs s = [] \<or> frozen_inputs s = [] \<Longrightarrow> snd (shift_inputs (snd (shift_inputs s))) = s"
  by (auto simp: freeze_inputs_store thaw_inputs_store shift_inputs_store)

theorem shift_twice_restores_split_witness:
  "(inputs \<lparr>inputs = [(''key1'', PStr ''value1'')], frozen_inputs = []\<rparr> = []
      \<or> frozen_inputs \<lparr>inputs = [(''key1'', PStr ''value1'')], frozen_inputs = []\<rparr> = [])
   \<and> snd (shift_inputs \<lparr>inputs = [(''key1'', PStr ''value1'')], frozen_inputs = []\<rparr>)
       = \<lparr>inputs = [], frozen_inputs = [(''key1'', PStr ''value1'')]\<rparr>
   \<and> snd (shift_inputs (snd (shift_inputs
         \<lparr>inputs = [(''key1'', PStr ''value1'')], frozen_inputs = []\<rparr>)))
       = \<lparr>inputs = [(''key1'', PStr ''value1'')], frozen_inputs = []\<rparr>"
  using shift_twice_restores_split
          [of "\<lparr>inputs = [(''key1'', PStr ''value1'')], frozen_inputs = []\<rparr>"]
  by (simp add: shift_inputs_store freeze_inputs_store)

text \<open>
  C6 as stated fails from a store whose two mappings are both non-empty: the first
  \<open>shift_inputs\<close> thaws and merges, the second freezes the merged mapping.
\<close>

theorem shift_twice_counterexample:
  "snd (shift_inputs (snd (shift_inputs
      \<lparr>inputs = [(''a'', PInt 1)], frozen_inputs = [(''b'', PInt 2)]\<rparr>)))
     = \<lparr>inputs = [], frozen_inputs = [(''a'', PInt 1), (''b'', PInt 2)]\<rparr>
   \<and> snd (shift_inputs (snd (shift_inputs
      \<lparr>inputs = [(''a'', PInt 1)], frozen_inputs = [(''b'', PInt 2)]\<rparr>)))
     \<noteq> \<lparr>inputs = [(''a'', PInt 1)], frozen_inputs = [(''b'', PInt 2)]\<rparr>"
  by (simp add: freeze_inputs_store thaw_inputs_store shift_inputs_store)

section \<open>Reading an input\<close>

lemma casefold_KEY1: "casefold L ''KEY1'' = Inr ''key1''"
  unfolding casefold_def by code_simp

lemma casefold_key1: "casefold L ''key1'' = Inr ''key1''"
  unfolding casefold_def by code_simp

lemma casefold_Key1: "casefold L ''Key1'' = Inr ''key1''"
  unfolding casefold_def by code_simp

lemma casefold_TEST_ENV_VAR: "casefold L ''TEST_ENV_VAR'' = Inr ''test_env_var''"
  unfolding casefold_def by code_simp

lemma casefold_k: "casefold L ''k'' = Inr ''k''"
  unfolding casefold_def by code_simp

lemma is_nothing_PNone: "is_nothing PNone"
  by (simp add: is_nothing_def nothing_literals_def py_eq.simps(1))

lemma is_nothing_empty_text: "is_nothing (PStr [])"
  by (simp add: is_nothing_def nothing_literals_def py_eq.simps(1))

lemma convert_bool_with_inputs:
  "convert_bool L b v = Inl e \<Longrightarrow> with_inputs d (Inl e) = Inl e"
  by (cases e) (auto simp: convert_bool_def split: sum.splits if_splits)

lemma convert_integer_with_inputs:
  "convert_integer L key i v = Inl e \<Longrightarrow> with_inputs d (Inl e) = Inl e"
  by (cases e) (auto simp: convert_integer_def split: sum.splits if_splits)

lemma convert_float_with_inputs:
  "convert_float L key f v = Inl e \<Longrightarrow> with_inputs d (Inl e) = Inl e"
  by (cases e) (auto simp: convert_float_def split: sum.splits if_splits)

text \<open>On a stored value that is nothing, the default takes its place before any
  conversion: the run goes on as on the store without the key.\<close>

lemma get_input_nothing_unfold:
  assumes "casefold L key = Inr k" and "map_of d k = Some v" and "is_nothing v"
  shows "get_input L \<lparr>inputs = d, frozen_inputs = fz\<rparr> key dflt required is_bool is_integer
           is_float =
     (case convert_bool L is_bool dflt of
        Inl err \<Rightarrow> Inl err
      | Inr inp2 \<Rightarrow>
          (case convert_integer L key is_integer inp2 of
             Inl err \<Rightarrow> Inl err
           | Inr inp3 \<Rightarrow>
               (case convert_float L key is_float inp3 of
                  Inl err \<Rightarrow> Inl err
                | Inr inp4 \<Rightarrow>
                    if is_nothing inp4 \<and> required then Inl (RequiredNotPassed key d)
                    else Inr inp4)))"
  using assms by (simp add: get_input_def dict_get_def split: sum.split)

lemma get_input_absent_unfold:
  assumes "casefold L key = Inr k" and "map_of d k = None"
  shows "get_input L \<lparr>inputs = d, frozen_inputs = fz\<rparr> key dflt required is_bool is_integer
           is_float =
     (case convert_bool L is_bool dflt of
        Inl err \<Rightarrow> Inl err
      | Inr inp2 \<Rightarrow>
          (case convert_integer L key is_integer inp2 of
             Inl err \<Rightarrow> Inl err
           | Inr inp3 \<Rightarrow>
               (case convert_float L key is_float inp3 of
                  Inl err \<Rightarrow> Inl err
                | Inr inp4 \<Rightarrow>
                    if is_nothing inp4 \<and> required then Inl (RequiredNotPassed key d)
                    else Inr inp4)))"
  using assms by (simp add: get_input_def dict_get_def split: sum.split)

lemma get_input_nothing_as_absent:
  assumes "casefold L key = Inr k" and "map_of d k = Some v" and "is_nothing v"
  shows "get_input L \<lparr>inputs = d, frozen_inputs = fz\<rparr> key dflt False is_bool is_integer
           is_float
         = get_input L \<lparr>inputs = AList.delete k d, frozen_inputs = fz\<rparr> key dflt False is_bool
             is_integer is_float"
    and "get_input L \<lparr>inputs = d, frozen_inputs = fz\<rparr> key dflt required is_bool is_integer
           is_float
         = with_inputs d
             (get_input L \<lparr>inputs = AList.delete k d, frozen_inputs = fz\<rparr> key dflt required
                is_bool is_integer is_float)"
proof -
  have absent: "map_of (AList.delete k d) k = None"
    by (simp add: delete_conv)
  note u = get_input_nothing_unfold[OF assms] get_input_absent_unfold[OF assms(1) absent]
  show "get_input L \<lparr>inputs = d, frozen_inputs = fz\<rparr> key dflt False is_bool is_integer
           is_float
         = get_input L \<lparr>inputs = AList.delete k d, frozen_inputs = fz\<rparr> key dflt False is_bool
             is_integer is_float"
    by (simp add: u split: sum.split)
  show "get_input L \<lparr>inputs = d, frozen_inputs = fz\<rparr> key dflt required is_bool is_integer
           is_float
         = with_inputs d
             (get_input L \<lparr>inputs = AList.delete k d, frozen_inputs = fz\<rparr> key dflt required
                is_bool is_integer is_float)"
  proof (cases "convert_bool L is_bool dflt")
    case (Inl e)
    then show ?thesis using convert_bool_with_inputs[OF Inl] by (simp add: u)
  next
    case b: (Inr inp2)
    show ?thesis
    proof (cases "convert_integer L key is_integer inp2")
      case (Inl e)
      then show ?thesis using b convert_integer_with_inputs[OF Inl] by (simp add: u)
    next
      case i: (Inr inp3)
      show ?thesis
      proof (cases "convert_float L key is_float inp3")
        case (Inl e)
        then show ?thesis using b i convert_float_with_inputs[OF Inl] by (simp add: u)
      next
        case (Inr inp4)
        then show ?thesis using b i by (simp add: u)
      qed
    qed
  qed
qed

text \<open>
  C2. The lookup folds the case of the query key only; the keys of the mapping stay as
  they were stored. A value stored under \<open>Key1\<close> is found by no query: \<open>KEY1\<close>, \<open>key1\<close> and
  \<open>Key1\<close> all fold to \<open>key1\<close>, which is not a key of the mapping, and \<open>get_input\<close> answers
  the default. Likewise a value stored under the name of an environment variable,
  \<open>TEST_ENV_VAR\<close>, is not found under that very name.
\<close>

theorem get_input_misses_mixed_case_key:
  "get_input L \<lparr>inputs = [(''Key1'', PStr ''value1'')], frozen_inputs = []\<rparr>
      ''KEY1'' PNone False False False False = Inr PNone
   \<and> get_input L \<lparr>inputs = [(''Key1'', PStr ''value1'')], frozen_inputs = []\<rparr>
      ''key1'' PNone False False False False = Inr PNone
   \<and> get_input L \<lparr>inputs = [(''Key1'', PStr ''value1'')], frozen_inputs = []\<rparr>
      ''Key1'' PNone False False False False = Inr PNone
   \<and> get_input L \<lparr>inputs = [(''TEST_ENV_VAR'', PStr ''test_value'')], frozen_inputs = []\<rparr>
      ''TEST_ENV_VAR'' PNone False False False False = Inr PNone"
  by (simp add: get_input_def casefold_KEY1 casefold_key1 casefold_Key1 casefold_TEST_ENV_VAR
        dict_get_def
        is_nothing_PNone convert_bool_def convert_integer_def convert_float_def)

text \<open>
  C10, as amended. When the value stored under the folded key is nothing (\<open>is_nothing\<close>),
  \<open>get_input\<close> with no conversion and \<open>required\<close> false returns the default; with
  \<open>required\<close> false and any conversions it gives exactly what it gives on the store without
  that key, value or error; and with \<open>required\<close> true it gives the same value or the same
  error but for the missing-input error, whose message prints the stored inputs and so
  shows the empty entry.
\<close>

theorem get_input_empty_value_as_absent:
  assumes "casefold L key = Inr k \<and> map_of (inputs s) k = Some v \<and> is_nothing v"
  shows "get_input L s key dflt False False False False = Inr dflt
     \<and> get_input L s key dflt False is_bool is_integer is_float =
        get_input L (s\<lparr>inputs := AList.delete k (inputs s)\<rparr>) key dflt
          False is_bool is_integer is_float
     \<and> get_input L s key dflt required is_bool is_integer is_float =
        with_inputs (inputs s)
          (get_input L (s\<lparr>inputs := AList.delete k (inputs s)\<rparr>) key dflt
                required is_bool is_integer is_float)"
proof -
  obtain d fz where s: "s = \<lparr>inputs = d, frozen_inputs = fz\<rparr>" by (cases s) simp
  from assms have c: "casefold L key = Inr k" and m: "map_of d k = Some v" and n: "is_nothing v"
    by (simp_all add: s)
  have 1: "get_input L s key dflt False False False False = Inr dflt"
    by (simp add: s get_input_nothing_unfold[OF c m n] convert_bool_def convert_integer_def
          convert_float_def)
  have 2: "get_input L s key dflt False is_bool is_integer is_float =
        get_input L (s\<lparr>inputs := AList.delete k (inputs s)\<rparr>) key dflt
          False is_bool is_integer is_float"
    using get_input_nothing_as_absent(1)[OF c m n] by (simp add: s)
  have 3: "get_input L s key dflt required is_bool is_integer is_float =
        with_inputs (inputs s)
          (get_input L (s\<lparr>inputs := AList.delete k (inputs s)\<rparr>) key dflt
                required is_bool is_integer is_float)"
    using get_input_nothing_as_absent(2)[OF c m n] by (simp add: s)
  from 1 2 3 show ?thesis by simp
qed

theorem get_input_empty_value_as_absent_witness:
  "casefold ref_lib ''KEY1'' = Inr ''key1''
   \<and> map_of (inputs \<lparr>inputs = [(''key1'', PStr [])], frozen_inputs = []\<rparr>) ''key1''
       = Some (PStr [])
   \<and> is_nothing (PStr [])
   \<and> get_input ref_lib \<lparr>inputs = [(''key1'', PStr [])], frozen_inputs = []\<rparr>
        ''KEY1'' (PStr ''fallback'') False False False False = Inr (PStr ''fallback'')
   \<and> get_input ref_lib \<lparr>inputs = [], frozen_inputs = []\<rparr>
        ''KEY1'' (PStr ''fallback'') False False False False = Inr (PStr ''fallback'')"
proof -
  have h: "casefold ref_lib ''KEY1'' = Inr ''key1''
           \<and> map_of (inputs \<lparr>inputs = [(''key1'', PStr [])], frozen_inputs = []\<rparr>) ''key1''
               = Some (PStr [])
           \<and> is_nothing (PStr [])"
    by (simp add: casefold_KEY1 is_nothing_empty_text)
  have absent: "get_input ref_lib \<lparr>inputs = [], frozen_inputs = []\<rparr>
        ''KEY1'' (PStr ''fallback'') False False False False = Inr (PStr ''fallback'')"
    by (simp add: get_input_absent_unfold[OF casefold_KEY1] convert_bool_def
          convert_integer_def convert_float_def)
  show ?thesis
    using h absent
      get_input_empty_value_as_absent
        [OF h, of "PStr ''fallback''" False False False False]
    by simp
qed

text \<open>
  C10 as stated fails on a required input: with the empty string stored under \<open>k\<close> the
  call fails with the missing-input error that prints the mapping with its entry for
  \<open>k\<close>, and on the store without the key with the one that prints the empty mapping.
\<close>

theorem get_input_required_empty_counterexample:
  "is_nothing (PStr [])
   \<and> get_input ref_lib \<lparr>inputs = [(''k'', PStr [])], frozen_inputs = []\<rparr>
        ''k'' PNone True False False False
       = Inl (RequiredNotPassed ''k'' [(''k'', PStr [])])
   \<and> get_input ref_lib \<lparr>inputs = [], frozen_inputs = []\<rparr>
        ''k'' PNone True False False False
       = Inl (RequiredNotPassed ''k'' [])
   \<and> get_input ref_lib \<lparr>inputs = [(''k'', PStr [])], frozen_inputs = []\<rparr>
        ''k'' PNone True False False False
       \<noteq> get_input ref_lib \<lparr>inputs = [], frozen_inputs = []\<rparr>
        ''k'' PNone True False False False"
proof -
  have a: "get_input ref_lib \<lparr>inputs = [(''k'', PStr [])], frozen_inputs = []\<rparr>
        ''k'' PNone True False False False
       = Inl (RequiredNotPassed ''k'' [(''k'', PStr [])])"
    by (simp add: get_input_nothing_unfold[OF casefold_k _ is_nothing_empty_text]
          convert_bool_def convert_integer_def convert_float_def is_nothing_PNone)
  have b: "get_input ref_lib \<lparr>inputs = [], frozen_inputs = []\<rparr>
        ''k'' PNone True False False False
       = Inl (RequiredNotPassed ''k'' [])"
    by (simp add: get_input_absent_unfold[OF casefold_k] convert_bool_def
          convert_integer_def convert_float_def is_nothing_PNone)
  show ?thesis using a b by (simp add: is_nothing_empty_text)
qed

section \<open>Decoding an input\<close>


















lemma get_input_None:
  "get_input L s key dflt required False False False = Inr PNone \<Longrightarrow> dflt = PNone"
  by (auto simp: get_input_def convert_bool_def convert_integer_def convert_float_def Let_def
        is_nothing_def nothing_literals_def py_eq.simps(1) split: if_splits sum.splits)





text \<open>
  C8, as amended. With \<open>allow_none\<close> false, \<open>decode_input\<close> returns the default when the
  decoded result (what the same call returns with \<open>allow_none\<close> true) is \<open>None\<close>, and returns
  the decoded result as it is otherwise, an empty one included; an error is the same
  error.
\<close>

theorem decode_input_default_only_for_none:
  "decode_input L s key dflt required j y b False dtype =
     (case decode_input L s key dflt required j y b True dtype of
        Inl err \<Rightarrow> Inl err
      | Inr r \<Rightarrow> if r = PNone then Inr dflt else Inr r)"
proof (cases dtype)
  case (Some t)
  then show ?thesis by (simp add: decode_input_def)
next
  case None
  show ?thesis
  proof (cases "get_input L s key dflt required False False False")
    case (Inl e)
    then show ?thesis by (simp add: None decode_input_def)
  next
    case (Inr conf)
    show ?thesis
    proof (cases "conf = PNone")
      case True
      with Inr have "dflt = PNone" by (simp add: get_input_None)
      with True Inr show ?thesis by (simp add: None decode_input_def)
    next
      case False
      with Inr show ?thesis
        by (simp add: None decode_input_def Let_def split: sum.split)
    qed
  qed
qed

theorem decode_input_default_only_for_none_witness:
  "decode_input ref_lib \<lparr>inputs = [(''k'', PStr ''null'')], frozen_inputs = []\<rparr>
      ''k'' (PStr ''fallback'') False True False False True None = Inr PNone
   \<and> decode_input ref_lib \<lparr>inputs = [(''k'', PStr ''null'')], frozen_inputs = []\<rparr>
      ''k'' (PStr ''fallback'') False True False False False None = Inr (PStr ''fallback'')"
proof -
  have t: "decode_input ref_lib \<lparr>inputs = [(''k'', PStr ''null'')], frozen_inputs = []\<rparr>
      ''k'' (PStr ''fallback'') False True False False True None = Inr PNone"
    by code_simp
  show ?thesis
    using t decode_input_default_only_for_none
            [of ref_lib "\<lparr>inputs = [(''k'', PStr ''null'')], frozen_inputs = []\<rparr>" "''k''"
                "PStr ''fallback''" False True False False None]
    by simp
qed

text \<open>
  C8 as stated fails on an empty result that is not \<open>None\<close>: the JSON text \<open>[]\<close> decodes
  to the empty list, which \<open>is_nothing\<close> counts as nothing, and with \<open>allow_none\<close> false
  the call returns the empty list, not the default.
\<close>

theorem decode_input_empty_result_counterexample:
  "decode_input ref_lib \<lparr>inputs = [(''k'', PStr ''[]'')], frozen_inputs = []\<rparr>
      ''k'' (PStr ''fallback'') False True False False False None = Inr (PList [])
   \<and> is_nothing (PList [])
   \<and> decode_input ref_lib \<lparr>inputs = [(''k'', PStr ''[]'')], frozen_inputs = []\<rparr>
      ''k'' (PStr ''fallback'') False True False False False None \<noteq> Inr (PStr ''fallback'')"
proof -
  have r: "decode_input ref_lib \<lparr>inputs = [(''k'', PStr ''[]'')], frozen_inputs = []\<rparr>
      ''k'' (PStr ''fallback'') False True False False False None = Inr (PList [])"
    by code_simp
  have n: "is_nothing (PList [])"
    by (simp add: is_nothing_def nothing_literals_def py_eq.simps(1))
  show ?thesis using r n by simp
qed

section \<open>The merge of the sources\<close>

lemma dict_update_distinct: "distinct (map fst a) \<Longrightarrow> distinct (map fst (dict_update a d))"
  by (induction d arbitrary: a) (simp_all add: distinct_update)

lemma dict_update_map_of:
  "distinct (map fst d) \<Longrightarrow> map_of (dict_update a d) = map_of a ++ map_of d"
proof (induction d arbitrary: a)
  case Nil
  then show ?case by simp
next
  case (Cons kv d)
  obtain k v where kv: "kv = (k, v)" by (cases kv)
  from Cons.prems have d: "distinct (map fst d)" and nin: "k \<notin> fst ` set d" by (auto simp: kv)
  have none: "map_of d k = None" using nin by (simp add: map_of_eq_None_iff)
  show ?case
  proof (rule ext)
    fix x
    show "map_of (dict_update a (kv # d)) x = (map_of a ++ map_of (kv # d)) x"
      using none
      by (cases "x = k") (simp_all add: kv Cons.IH[OF d] map_add_def update_conv
            split: option.splits)
  qed
qed

lemma stdin_call_wf:
  "StdinSettingsSource_call L p = (Inr d, p') \<Longrightarrow> distinct (map fst d)"
  by (auto simp: StdinSettingsSource_call_def sys_stdin_read_def Let_def dict_update_distinct
        split: sum.splits if_splits pyval.splits elim!: dict_update_from.elims)

lemma stdin_call_override:
  "strtobool L (PStr (os_getenv p ''OVERRIDE_STDIN'' ''False'')) = Inr flag \<Longrightarrow> truthy flag \<Longrightarrow>
   StdinSettingsSource_call L p = (Inr [], p)"
  by (simp add: StdinSettingsSource_call_def)

lemma sources_list:
  "settings_customise_sources (Inr fe) (Inr fs) (Inr src) i e d f =
     Inr ((if fe then [e] else []) @ (if fs then [src] else []) @ [i, d, f])"
  by (simp add: settings_customise_sources_def List.map_filter_simps)

lemma sources_not_built:
  "settings_customise_sources (Inr fe) (Inr True) (Inl x) i e d f = Inl x"
  by (simp add: settings_customise_sources_def)

lemma deep_update_distinct:
  "distinct (map fst m) \<Longrightarrow> distinct (map fst (deep_update m u))"
  by (induction u arbitrary: m) (simp_all add: distinct_update split: option.split)

lemma deep_update_lookup:
  "distinct (map fst u) \<Longrightarrow>
   map_of (deep_update m u) k =
     (case map_of u k of
        None \<Rightarrow> map_of m k
      | Some v \<Rightarrow>
          (case map_of m k of None \<Rightarrow> Some v | Some old \<Rightarrow> Some (deep_update_value old v)))"
proof (induction u arbitrary: m k)
  case Nil
  then show ?case by simp
next
  case (Cons kv u)
  obtain k0 v0 where kv: "kv = (k0, v0)" by (cases kv)
  from Cons.prems have d: "distinct (map fst u)" and nin: "k0 \<notin> fst ` set u"
    by (auto simp: kv)
  have none: "map_of u k0 = None" using nin by (simp add: map_of_eq_None_iff)
  show ?case
  proof (cases "k = k0")
    case True
    then show ?thesis using none
      by (simp add: kv Cons.IH[OF d] update_conv' split: option.splits)
  next
    case False
    then show ?thesis
      by (simp add: kv Cons.IH[OF d] update_conv' split: option.splits)
  qed
qed

lemma deep_update_value_plain: "\<forall>d. v \<noteq> PDict d \<Longrightarrow> deep_update_value old v = v"
  by (cases old; cases v) simp_all

text \<open>One step of pydantic's fold, at a key \<open>k\<close>: \<open>F\<close> is what the sources read so far
  give, the earlier before the later.\<close>

lemma first_wins_step:
  assumes "distinct (map fst S)"
    and "(\<forall>d. F k \<noteq> Some (PDict d)) \<longrightarrow> map_of S k = F k"
  shows "(\<forall>d. (map_of m ++ F) k \<noteq> Some (PDict d))
         \<longrightarrow> map_of (deep_update m S) k = (map_of m ++ F) k"
proof (cases "F k")
  case None
  with assms(2) have "map_of S k = None" by simp
  then show ?thesis using None by (simp add: deep_update_lookup[OF assms(1)] map_add_def)
next
  case (Some v)
  show ?thesis
  proof
    assume plain: "\<forall>d. (map_of m ++ F) k \<noteq> Some (PDict d)"
    then have v: "\<forall>d. v \<noteq> PDict d" using Some by (simp add: map_add_def)
    with assms(2) Some have "map_of S k = Some v" by simp
    then show "map_of (deep_update m S) k = (map_of m ++ F) k"
      using Some v
      by (simp add: deep_update_lookup[OF assms(1)] map_add_def deep_update_value_plain
            split: option.split)
  qed
qed

lemma deep_update_new_key:
  "distinct (map fst S) \<Longrightarrow> map_of S k = None \<Longrightarrow> map_of (deep_update m S) k = map_of m k"
  by (simp add: deep_update_lookup)

lemma deep_update_kept_key:
  "distinct (map fst S) \<Longrightarrow> map_of m k = None \<Longrightarrow> map_of (deep_update m S) k = map_of S k"
  by (simp add: deep_update_lookup split: option.split)

lemma loop_result:
  assumes "fs \<longrightarrow> StdinSettingsSource_call L p = (Inr stdin_values, p')"
  shows "combine_sources L
           ((if fe then [SettingsSource env] else []) @ (if fs then [StdinSettingsSource] else [])
            @ [SettingsSource kwargs, SettingsSource dotenv, SettingsSource secrets]) [] p =
     (Inr (dict_update (dict_update (dict_update
             (dict_update (dict_update [] (if fe then env else []))
                (if fs then stdin_values else []))
             kwargs) dotenv) secrets),
      if fs then p' else p)"
  using assms by (cases fe; cases fs) simp_all

lemma build_result:
  assumes "fs \<longrightarrow> StdinSettingsSource_call L p = (Inr stdin_values, p')"
  shows "settings_build_values L
           ((if fe then [SettingsSource env] else []) @ (if fs then [StdinSettingsSource] else [])
            @ [SettingsSource kwargs, SettingsSource dotenv, SettingsSource secrets]) [] p =
     (Inr (deep_update secrets (deep_update dotenv (deep_update kwargs
             (if fs then deep_update stdin_values (if fe then env else [])
              else (if fe then env else []))))),
      if fs then p' else p)"
  using assms by (cases fe; cases fs) simp_all

lemma combine_fixed:
  "combine_sources L (map SettingsSource ds) acc p = (Inr (foldl dict_update acc ds), p)"
  by (induction ds arbitrary: acc) simp_all

lemma combine_override:
  assumes "StdinSettingsSource_call L p = (Inr [], p)"
  shows "combine_sources L sources acc p = (Inr (foldl dict_update acc (fixed_mappings sources)), p)"
proof (induction sources arbitrary: acc)
  case Nil
  then show ?case by simp
next
  case (Cons src sources)
  then show ?case using assms by (cases src) simp_all
qed

lemma fixed_mappings_filter:
  "map SettingsSource (fixed_mappings sources)
     = filter (\<lambda>src. src \<noteq> StdinSettingsSource) sources"
proof (induction sources)
  case Nil
  then show ?case by simp
next
  case (Cons src sources)
  then show ?case by (cases src) simp_all
qed

text \<open>
  C1, as amended. \<open>settings_customise_sources\<close> returns the sources in the order:
  environment variables (if enabled), standard input (if enabled), initialization values,
  dotenv values, file secrets; it returns nothing when the standard-input source cannot be
  built. Both ways of merging that tuple are stated. The loop of the decorator's wrapper
  updates one mapping with each source in turn, so a later source of the tuple wins:
  dotenv values and file secrets override the initialization values, which override
  standard input and the environment. pydantic, constructing the settings, lets an
  earlier source of the tuple win, on every key whose winning value is not a dict: the
  environment overrides standard input, which overrides the initialization values, which
  override dotenv values and file secrets. Either way a key that only the
  initialization mapping holds maps to its initialization value.
\<close>

theorem customised_sources_priority:
  assumes "wf_dict kwargs \<and> wf_dict env \<and> wf_dict dotenv \<and> wf_dict secrets
     \<and> (from_stdin \<longrightarrow> StdinSettingsSource_call L p = (Inr stdin_values, p'))"
  shows "\<exists>sources by_loop by_pydantic.
      settings_customise_sources (Inr from_environment) (Inr from_stdin)
          (Inr StdinSettingsSource) (SettingsSource kwargs) (SettingsSource env)
          (SettingsSource dotenv) (SettingsSource secrets) = Inr sources
    \<and> sources =
        (if from_environment then [SettingsSource env] else [])
        @ (if from_stdin then [StdinSettingsSource] else [])
        @ [SettingsSource kwargs, SettingsSource dotenv, SettingsSource secrets]
    \<and> settings_customise_sources (Inr from_environment) (Inr True) (Inl e)
          (SettingsSource kwargs) (SettingsSource env) (SettingsSource dotenv)
          (SettingsSource secrets) = Inl e
    \<and> fst (combine_sources L sources [] p) = Inr by_loop
    \<and> map_of by_loop =
        map_of (if from_environment then env else [])
          ++ map_of (if from_stdin then stdin_values else [])
          ++ map_of kwargs ++ map_of dotenv ++ map_of secrets
    \<and> fst (settings_build_values L sources [] p) = Inr by_pydantic
    \<and> ((\<forall>d. (map_of secrets ++ map_of dotenv ++ map_of kwargs
                ++ map_of (if from_stdin then stdin_values else [])
                ++ map_of (if from_environment then env else [])) k \<noteq> Some (PDict d))
        \<longrightarrow> map_of by_pydantic k =
              (map_of secrets ++ map_of dotenv ++ map_of kwargs
                ++ map_of (if from_stdin then stdin_values else [])
                ++ map_of (if from_environment then env else [])) k)
    \<and> (map_of kwargs k = Some v
         \<and> map_of (if from_environment then env else []) k = None
         \<and> map_of (if from_stdin then stdin_values else []) k = None
         \<and> map_of dotenv k = None \<and> map_of secrets k = None
        \<longrightarrow> map_of by_loop k = Some v \<and> map_of by_pydantic k = Some v)"
proof -
  let ?e = "if from_environment then env else []"
  let ?t = "if from_stdin then stdin_values else []"
  let ?sources = "(if from_environment then [SettingsSource env] else [])
        @ (if from_stdin then [StdinSettingsSource] else [])
        @ [SettingsSource kwargs, SettingsSource dotenv, SettingsSource secrets]"
  let ?loop = "dict_update (dict_update (dict_update (dict_update (dict_update [] ?e) ?t)
                 kwargs) dotenv) secrets"
  let ?S2 = "if from_stdin then deep_update stdin_values ?e else ?e"
  let ?S3 = "deep_update kwargs ?S2"
  let ?S4 = "deep_update dotenv ?S3"
  let ?built = "deep_update secrets ?S4"
  let ?F2 = "map_of ?t ++ map_of ?e"
  let ?F3 = "map_of kwargs ++ ?F2"
  let ?F4 = "map_of dotenv ++ ?F3"
  let ?F5 = "map_of secrets ++ ?F4"
  from assms have stdin: "from_stdin \<longrightarrow> StdinSettingsSource_call L p = (Inr stdin_values, p')"
    by simp
  have wk: "distinct (map fst kwargs)" and wd: "distinct (map fst dotenv)"
    and ws: "distinct (map fst secrets)"
    using assms by (simp_all add: wf_dict_def)
  have we: "distinct (map fst ?e)" using assms by (simp add: wf_dict_def)
  have wt: "distinct (map fst ?t)" using assms stdin_call_wf by (auto simp: wf_dict_def)
  have tuple: "settings_customise_sources (Inr from_environment) (Inr from_stdin)
          (Inr StdinSettingsSource) (SettingsSource kwargs) (SettingsSource env)
          (SettingsSource dotenv) (SettingsSource secrets) = Inr ?sources"
    by (simp add: sources_list)
  have unbuilt: "settings_customise_sources (Inr from_environment) (Inr True) (Inl e)
          (SettingsSource kwargs) (SettingsSource env) (SettingsSource dotenv)
          (SettingsSource secrets) = Inl e"
    by (rule sources_not_built)
  have loop: "fst (combine_sources L ?sources [] p) = Inr ?loop"
    by (simp add: loop_result[OF stdin])
  have loop_map: "map_of ?loop = map_of ?e ++ map_of ?t ++ map_of kwargs ++ map_of dotenv
                    ++ map_of secrets"
    using we wt wk wd ws by (simp add: dict_update_map_of)
  have built: "fst (settings_build_values L ?sources [] p) = Inr ?built"
    by (simp add: build_result[OF stdin])
  have d2: "distinct (map fst ?S2)"
    using we wt by (cases from_stdin; cases from_environment) (simp_all add: deep_update_distinct)
  have d3: "distinct (map fst ?S3)" using wk by (simp add: deep_update_distinct)
  have d4: "distinct (map fst ?S4)" using wd by (simp add: deep_update_distinct)
  have i1: "(\<forall>d. map_of ?e k \<noteq> Some (PDict d)) \<longrightarrow> map_of ?e k = map_of ?e k"
    by simp
  have i2: "(\<forall>d. ?F2 k \<noteq> Some (PDict d)) \<longrightarrow> map_of ?S2 k = ?F2 k"
  proof (cases from_stdin)
    case True
    then show ?thesis
      using first_wins_step
              [where S = ?e and F = "map_of ?e" and k = k and m = stdin_values, OF we i1]
      by simp
  next
    case False
    then show ?thesis by simp
  qed
  have i3: "(\<forall>d. ?F3 k \<noteq> Some (PDict d)) \<longrightarrow> map_of ?S3 k = ?F3 k"
    by (rule first_wins_step [where S = "?S2" and F = "?F2" and k = k and m = kwargs, OF d2 i2])
  have i4: "(\<forall>d. ?F4 k \<noteq> Some (PDict d)) \<longrightarrow> map_of ?S4 k = ?F4 k"
    by (rule first_wins_step [where S = "?S3" and F = "?F3" and k = k and m = dotenv, OF d3 i3])
  have i5: "(\<forall>d. ?F5 k \<noteq> Some (PDict d)) \<longrightarrow> map_of ?built k = ?F5 k"
    by (rule first_wins_step [where S = "?S4" and F = "?F4" and k = k and m = secrets, OF d4 i4])
  have first_wins:
    "(\<forall>d. (map_of secrets ++ map_of dotenv ++ map_of kwargs ++ map_of ?t ++ map_of ?e) k
            \<noteq> Some (PDict d))
     \<longrightarrow> map_of ?built k
          = (map_of secrets ++ map_of dotenv ++ map_of kwargs ++ map_of ?t ++ map_of ?e) k"
    using i5 by (simp only: map_add_assoc)
  have only_init: "map_of kwargs k = Some v \<and> map_of ?e k = None \<and> map_of ?t k = None
         \<and> map_of dotenv k = None \<and> map_of secrets k = None
        \<longrightarrow> map_of ?loop k = Some v \<and> map_of ?built k = Some v"
  proof
    assume a: "map_of kwargs k = Some v \<and> map_of ?e k = None \<and> map_of ?t k = None
         \<and> map_of dotenv k = None \<and> map_of secrets k = None"
    have l: "map_of ?loop k = Some v" using a by (simp add: loop_map map_add_def)
    have s2: "map_of ?S2 k = None"
    proof (cases from_stdin)
      case True
      then show ?thesis using a deep_update_new_key[OF we, of k stdin_values] by simp
    next
      case False
      then show ?thesis using a by simp
    qed
    have s3: "map_of ?S3 k = Some v" using a s2 deep_update_new_key[OF d2 s2, of kwargs] by simp
    have s4: "map_of ?S4 k = Some v" using a s3 deep_update_kept_key[OF d3, of dotenv k] by simp
    have s5: "map_of ?built k = Some v"
      using a s4 deep_update_kept_key[OF d4, of secrets k] by simp
    from l s5 show "map_of ?loop k = Some v \<and> map_of ?built k = Some v" by simp
  qed
  show ?thesis
    by (rule exI[where x = "?sources"], rule exI[where x = "?loop"],
        rule exI[where x = "?built"], intro conjI;
        rule refl tuple unbuilt loop loop_map built first_wins only_init)
qed

theorem customised_sources_priority_witness:
  "wf_dict [(''k'', PStr ''init''), (''only'', PStr ''mine'')]
   \<and> wf_dict [(''k'', PStr ''env'')]
   \<and> StdinSettingsSource_call ref_lib
        \<lparr>environ = [], stdin_buffer = ''{\"k\": \"stdin\"}'', stdin_reads = 0\<rparr>
       = (Inr [(''k'', PStr ''stdin'')], \<lparr>environ = [], stdin_buffer = [], stdin_reads = 1\<rparr>)
   \<and> (\<exists>by_loop by_pydantic.
        fst (combine_sources ref_lib
               [SettingsSource [(''k'', PStr ''env'')], StdinSettingsSource,
                SettingsSource [(''k'', PStr ''init''), (''only'', PStr ''mine'')],
                SettingsSource [], SettingsSource []] []
               \<lparr>environ = [], stdin_buffer = ''{\"k\": \"stdin\"}'', stdin_reads = 0\<rparr>)
          = Inr by_loop
        \<and> fst (settings_build_values ref_lib
               [SettingsSource [(''k'', PStr ''env'')], StdinSettingsSource,
                SettingsSource [(''k'', PStr ''init''), (''only'', PStr ''mine'')],
                SettingsSource [], SettingsSource []] []
               \<lparr>environ = [], stdin_buffer = ''{\"k\": \"stdin\"}'', stdin_reads = 0\<rparr>)
          = Inr by_pydantic
        \<and> map_of by_loop ''k'' = Some (PStr ''init'')
        \<and> map_of by_loop ''only'' = Some (PStr ''mine'')
        \<and> map_of by_pydantic ''only'' = Some (PStr ''mine''))"
proof -
  let ?p = "\<lparr>environ = [], stdin_buffer = ''{\"k\": \"stdin\"}'', stdin_reads = 0\<rparr>"
  let ?p' = "\<lparr>environ = [], stdin_buffer = [], stdin_reads = 1\<rparr>"
  let ?kw = "[(''k'', PStr ''init''), (''only'', PStr ''mine'')]"
  have c: "StdinSettingsSource_call ref_lib ?p = (Inr [(''k'', PStr ''stdin'')], ?p')"
    by code_simp
  have h: "wf_dict ?kw \<and> wf_dict [(''k'', PStr ''env'')] \<and> wf_dict [] \<and> wf_dict []
           \<and> (True \<longrightarrow> StdinSettingsSource_call ref_lib ?p = (Inr [(''k'', PStr ''stdin'')], ?p'))"
    using c by (simp add: wf_dict_def)
  note th = customised_sources_priority
              [OF h, where from_environment = True and k = "''only''" and v = "PStr ''mine''"]
  have w: "wf_dict ?kw \<and> wf_dict [(''k'', PStr ''env'')]" by (simp add: wf_dict_def)
  from th w c show ?thesis
    by (elim exE conjE) (simp add: map_add_def)
qed

text \<open>
  C1 as stated fails on a key that the environment, the initialization mapping and the
  dotenv values all hold, with the environment and standard input both enabled: the
  specification's priority gives the initialization value, the wrapper's loop over the
  tuple gives the dotenv value, and pydantic's reading of the tuple gives the
  environment's value.
\<close>

theorem customised_sources_priority_counterexample:
  "settings_customise_sources (Inr True) (Inr True) (Inr StdinSettingsSource)
      (SettingsSource [(''k'', PStr ''init'')]) (SettingsSource [(''k'', PStr ''env'')])
      (SettingsSource [(''k'', PStr ''dotenv'')]) (SettingsSource [])
     = Inr [SettingsSource [(''k'', PStr ''env'')], StdinSettingsSource,
            SettingsSource [(''k'', PStr ''init'')], SettingsSource [(''k'', PStr ''dotenv'')],
            SettingsSource []]
   \<and> fst (combine_sources ref_lib
            [SettingsSource [(''k'', PStr ''env'')], StdinSettingsSource,
             SettingsSource [(''k'', PStr ''init'')], SettingsSource [(''k'', PStr ''dotenv'')],
             SettingsSource []] []
            \<lparr>environ = [], stdin_buffer = [], stdin_reads = 0\<rparr>)
       = Inr [(''k'', PStr ''dotenv'')]
   \<and> fst (settings_build_values ref_lib
            [SettingsSource [(''k'', PStr ''env'')], StdinSettingsSource,
             SettingsSource [(''k'', PStr ''init'')], SettingsSource [(''k'', PStr ''dotenv'')],
             SettingsSource []] []
            \<lparr>environ = [], stdin_buffer = [], stdin_reads = 0\<rparr>)
       = Inr [(''k'', PStr ''env'')]
   \<and> spec_priority [(''k'', PStr ''dotenv'')] [] [(''k'', PStr ''env'')] []
        [(''k'', PStr ''init'')] ''k'' = Some (PStr ''init'')"
proof -
  have t: "settings_customise_sources (Inr True) (Inr True) (Inr StdinSettingsSource)
      (SettingsSource [(''k'', PStr ''init'')]) (SettingsSource [(''k'', PStr ''env'')])
      (SettingsSource [(''k'', PStr ''dotenv'')]) (SettingsSource [])
     = Inr [SettingsSource [(''k'', PStr ''env'')], StdinSettingsSource,
            SettingsSource [(''k'', PStr ''init'')], SettingsSource [(''k'', PStr ''dotenv'')],
            SettingsSource []]"
    by (simp add: sources_list)
  have a: "fst (combine_sources ref_lib
            [SettingsSource [(''k'', PStr ''env'')], StdinSettingsSource,
             SettingsSource [(''k'', PStr ''init'')], SettingsSource [(''k'', PStr ''dotenv'')],
             SettingsSource []] []
            \<lparr>environ = [], stdin_buffer = [], stdin_reads = 0\<rparr>)
       = Inr [(''k'', PStr ''dotenv'')]"
    by code_simp
  have b: "fst (settings_build_values ref_lib
            [SettingsSource [(''k'', PStr ''env'')], StdinSettingsSource,
             SettingsSource [(''k'', PStr ''init'')], SettingsSource [(''k'', PStr ''dotenv'')],
             SettingsSource []] []
            \<lparr>environ = [], stdin_buffer = [], stdin_reads = 0\<rparr>)
       = Inr [(''k'', PStr ''env'')]"
    by code_simp
  have c: "spec_priority [(''k'', PStr ''dotenv'')] [] [(''k'', PStr ''env'')] []
        [(''k'', PStr ''init'')] ''k'' = Some (PStr ''init'')"
    by (simp add: spec_priority_def map_add_def)
  show ?thesis using t a b c by simp
qed

text \<open>
  C9. When \<open>strtobool\<close> of the environment variable \<open>OVERRIDE_STDIN\<close> is true, the
  standard-input source returns the empty mapping and leaves the process as it was,
  standard input unread, whatever standard input holds. The mapping merged from any
  tuple of sources is then built from the other sources alone, with no read of standard
  input: it is the same for any two contents of standard input, and the same with the
  standard-input source in the tuple as without it.
\<close>

theorem override_stdin_skips_stdin:
  "strtobool L (PStr (os_getenv p ''OVERRIDE_STDIN'' ''False'')) = Inr flag \<and> truthy flag \<Longrightarrow>
     StdinSettingsSource_call L (p\<lparr>stdin_buffer := text\<rparr>) = (Inr [], p\<lparr>stdin_buffer := text\<rparr>)
     \<and> combine_sources L sources acc (p\<lparr>stdin_buffer := text\<rparr>)
        = (Inr (foldl dict_update acc (fixed_mappings sources)), p\<lparr>stdin_buffer := text\<rparr>)
     \<and> fst (combine_sources L sources acc (p\<lparr>stdin_buffer := text\<rparr>))
        = fst (combine_sources L sources acc (p\<lparr>stdin_buffer := text'\<rparr>))
     \<and> combine_sources L sources acc (p\<lparr>stdin_buffer := text\<rparr>)
        = combine_sources L (filter (\<lambda>src. src \<noteq> StdinSettingsSource) sources) acc
            (p\<lparr>stdin_buffer := text\<rparr>)"
proof -
  assume a: "strtobool L (PStr (os_getenv p ''OVERRIDE_STDIN'' ''False'')) = Inr flag \<and> truthy flag"
  have call: "StdinSettingsSource_call L (p\<lparr>stdin_buffer := t\<rparr>) = (Inr [], p\<lparr>stdin_buffer := t\<rparr>)"
    for t
    using a by (intro stdin_call_override[where flag = flag]) (simp_all add: os_getenv_def)
  have w: "combine_sources L sources acc (p\<lparr>stdin_buffer := t\<rparr>)
        = (Inr (foldl dict_update acc (fixed_mappings sources)), p\<lparr>stdin_buffer := t\<rparr>)" for t
    by (rule combine_override[OF call])
  have f: "combine_sources L (filter (\<lambda>src. src \<noteq> StdinSettingsSource) sources) acc
             (p\<lparr>stdin_buffer := text\<rparr>)
        = (Inr (foldl dict_update acc (fixed_mappings sources)), p\<lparr>stdin_buffer := text\<rparr>)"
    using combine_fixed[of L "fixed_mappings sources" acc "p\<lparr>stdin_buffer := text\<rparr>"]
    by (simp add: fixed_mappings_filter)
  show ?thesis by (simp add: call w f)
qed

theorem override_stdin_skips_stdin_witness:
  "strtobool ref_lib (PStr (os_getenv
        \<lparr>environ = [(''OVERRIDE_STDIN'', ''True'')], stdin_buffer = [], stdin_reads = 0\<rparr>
        ''OVERRIDE_STDIN'' ''False'')) = Inr (PBool True)
   \<and> truthy (PBool True)
   \<and> StdinSettingsSource_call ref_lib
        \<lparr>environ = [(''OVERRIDE_STDIN'', ''True'')],
         stdin_buffer = ''{\"test_key\": \"test_value\"}'', stdin_reads = 0\<rparr>
       = (Inr [], \<lparr>environ = [(''OVERRIDE_STDIN'', ''True'')],
                   stdin_buffer = ''{\"test_key\": \"test_value\"}'', stdin_reads = 0\<rparr>)
   \<and> combine_sources ref_lib
        [SettingsSource [], StdinSettingsSource, SettingsSource [(''a'', PInt 1)],
         SettingsSource [], SettingsSource []] []
        \<lparr>environ = [(''OVERRIDE_STDIN'', ''True'')],
         stdin_buffer = ''{\"test_key\": \"test_value\"}'', stdin_reads = 0\<rparr>
       = (Inr [(''a'', PInt 1)],
          \<lparr>environ = [(''OVERRIDE_STDIN'', ''True'')],
           stdin_buffer = ''{\"test_key\": \"test_value\"}'', stdin_reads = 0\<rparr>)"
proof -
  let ?p = "\<lparr>environ = [(''OVERRIDE_STDIN'', ''True'')], stdin_buffer = [], stdin_reads = 0\<rparr>"
  have h: "strtobool ref_lib (PStr (os_getenv ?p ''OVERRIDE_STDIN'' ''False'')) = Inr (PBool True)
           \<and> truthy (PBool True)"
    by code_simp
  show ?thesis
    using h override_stdin_skips_stdin
            [OF h, of "''{\"test_key\": \"test_value\"}''"
               "[SettingsSource [], StdinSettingsSource, SettingsSource [(''a'', PInt 1)],
                 SettingsSource [], SettingsSource []]" "[]"]
    by simp
qed


end
